theory Spec2Isabelle
  imports Complex_Main
begin

section \<open>The JavaScript values the payment parser works on\<close>

text \<open>
  The parser of \<^verbatim>\<open>services/payment-processor/parse-instruction.js\<close> is one
  function, \<^verbatim>\<open>parseInstruction\<close>, over strings, arrays, numbers and plain objects.
  This section fixes how those are read here.

  \<^item> A JavaScript string is a list of characters, read as the code units U+0000 to
    U+00FF. White space and case mapping are those of ECMAScript on that alphabet, with
    one limit: the upper-case forms of U+00B5 and U+00FF lie outside it (U+039C and
    U+0178), and \<open>toUpperCase\<close> leaves these two characters as they are. Neither
    form occurs in a keyword, a currency code or a numeric literal, and both are above
    every character of a date, so only the echoed text of such a token can differ.
  \<^item> \<^verbatim>\<open>undefined\<close> and \<^verbatim>\<open>null\<close> are both \<open>None\<close>; the source never tells them apart
    (it only tests truthiness, and \<^verbatim>\<open>buildErrorResponse\<close> turns every falsy field into
    \<^verbatim>\<open>null\<close>).
  \<^item> A JavaScript number is a binary64 value: \<open>NaN\<close>, an infinity, or a finite value,
    kept as the rational it denotes (the two zeros are one). Whatever produces a number
    (\<^verbatim>\<open>Number(string)\<close>, \<^verbatim>\<open>+=\<close>, \<^verbatim>\<open>-=\<close>) rounds its exact result to binary64.
\<close>

subsection \<open>Strings\<close>

text \<open>
  The upper-case form of one character: the letters \<open>a\<close> to \<open>z\<close>, and the Latin-1
  letters U+00E0 to U+00FE (U+00F7, the division sign, is no letter), which lie 32
  above their capitals.
\<close>

definition toUpperChar :: "char \<Rightarrow> char" where
  "toUpperChar c =
     (case map_of (zip ''abcdefghijklmnopqrstuvwxyz'' ''ABCDEFGHIJKLMNOPQRSTUVWXYZ'') c of
        Some u \<Rightarrow> u
      | None \<Rightarrow>
          let n = (of_char c :: nat)
          in if 224 \<le> n \<and> n \<le> 254 \<and> n \<noteq> 247 then char_of (n - 32) else c)"

text \<open>\<^verbatim>\<open>s.toUpperCase()\<close>: character by character, but U+00DF becomes the two letters \<^verbatim>\<open>SS\<close>.\<close>

definition toUpperCase :: "string \<Rightarrow> string" where
  "toUpperCase s =
     concat (map (\<lambda>c. if (of_char c :: nat) = 223 then ''SS'' else [toUpperChar c]) s)"

text \<open>\<^verbatim>\<open>a < b\<close> on strings: lexicographic on the character codes, a proper prefix first.\<close>

fun str_less :: "string \<Rightarrow> string \<Rightarrow> bool" where
  "str_less [] [] = False"
| "str_less [] (y # ys) = True"
| "str_less (x # xs) [] = False"
| "str_less (x # xs) (y # ys) =
     (if (of_char x :: nat) < of_char y then True
      else if (of_char y :: nat) < of_char x then False
      else str_less xs ys)"

text \<open>\<^verbatim>\<open>xs[i]\<close> on an array: \<^verbatim>\<open>undefined\<close> out of range.\<close>

definition item :: "'a list \<Rightarrow> nat \<Rightarrow> 'a option" where
  "item xs i = (if i < length xs then Some (xs ! i) else None)"

text \<open>\<^verbatim>\<open>s.split(sep)\<close> for a one-character separator: never the empty array.\<close>

fun split :: "char \<Rightarrow> string \<Rightarrow> string list" where
  "split sep [] = [[]]"
| "split sep (c # cs) =
     (if c = sep then [] # split sep cs
      else (case split sep cs of
              [] \<Rightarrow> [[c]]
            | w # ws \<Rightarrow> (c # w) # ws))"

text \<open>Truthiness of a string that may be \<^verbatim>\<open>undefined\<close>: defined and not empty.\<close>

fun truthy :: "string option \<Rightarrow> bool" where
  "truthy None = False"
| "truthy (Some s) = (s \<noteq> [])"

subsection \<open>Numbers\<close>

datatype jsnum = NaN | PosInfinity | NegInfinity | Fin rat

text \<open>
  Rounding a rational to binary64, to nearest and ties to even: 53 significant bits, the
  exponent of the leading bit between \<open>-1022\<close> and \<open>1023\<close>, subnormal values in steps
  of \<open>2^-1074\<close> below that, and an infinity from \<open>2^1024\<close> on.
\<close>

definition pow2 :: "int \<Rightarrow> rat" where
  "pow2 e = (if 0 \<le> e then 2 ^ nat e else 1 / 2 ^ nat (- e))"

text \<open>The number of binary digits of a positive integer.\<close>

function bitlen :: "int \<Rightarrow> int" where
  "bitlen n = (if n \<le> 0 then 0 else 1 + bitlen (n div 2))"
  by pat_completeness auto
termination
  by (relation "measure nat") auto

declare bitlen.simps [simp del]

text \<open>The exponent of the leading bit of a positive rational: \<open>\<lfloor>log\<^sub>2 a\<rfloor>\<close>.\<close>

definition floor_log2 :: "rat \<Rightarrow> int" where
  "floor_log2 a =
     (if 1 \<le> a then bitlen \<lfloor>a\<rfloor> - 1
      else let j = bitlen \<lfloor>1 / a\<rfloor> - 1
           in if a = pow2 (- j) then - j else - j - 1)"

definition roundHalfEven :: "rat \<Rightarrow> int" where
  "roundHalfEven m =
     (let f = \<lfloor>m\<rfloor>; d = m - of_int f
      in if d < 1 / 2 then f
         else if 1 / 2 < d then f + 1
         else if even f then f else f + 1)"

definition toDouble :: "rat \<Rightarrow> jsnum" where
  "toDouble q =
     (if q = 0 then Fin 0
      else
        let a = \<bar>q\<bar>;
            e = max (floor_log2 a) (- 1022);
            ulp = pow2 (e - 52);
            r = of_int (roundHalfEven (a / ulp)) * ulp
        in if pow2 1024 \<le> r then (if q < 0 then NegInfinity else PosInfinity)
           else Fin (if q < 0 then - r else r))"

fun num_neg :: "jsnum \<Rightarrow> jsnum" where
  "num_neg NaN = NaN"
| "num_neg PosInfinity = NegInfinity"
| "num_neg NegInfinity = PosInfinity"
| "num_neg (Fin q) = Fin (- q)"

text \<open>\<^verbatim>\<open>a + b\<close> on numbers: the exact sum of two finite values, rounded.\<close>

fun num_add :: "jsnum \<Rightarrow> jsnum \<Rightarrow> jsnum" where
  "num_add (Fin a) (Fin b) = toDouble (a + b)"
| "num_add NaN _ = NaN"
| "num_add _ NaN = NaN"
| "num_add PosInfinity NegInfinity = NaN"
| "num_add NegInfinity PosInfinity = NaN"
| "num_add PosInfinity _ = PosInfinity"
| "num_add NegInfinity _ = NegInfinity"
| "num_add _ PosInfinity = PosInfinity"
| "num_add _ NegInfinity = NegInfinity"

text \<open>\<^verbatim>\<open>a - b\<close> on numbers: the exact difference of two finite values, rounded.\<close>

definition num_sub :: "jsnum \<Rightarrow> jsnum \<Rightarrow> jsnum" where
  "num_sub a b = num_add a (num_neg b)"

text \<open>\<^verbatim>\<open>a < b\<close> on numbers: false as soon as one side is \<open>NaN\<close>.\<close>

fun num_less :: "jsnum \<Rightarrow> jsnum \<Rightarrow> bool" where
  "num_less (Fin a) (Fin b) = (a < b)"
| "num_less NaN _ = False"
| "num_less _ NaN = False"
| "num_less NegInfinity NegInfinity = False"
| "num_less NegInfinity _ = True"
| "num_less PosInfinity _ = False"
| "num_less _ PosInfinity = True"
| "num_less _ NegInfinity = False"

fun num_eq :: "jsnum \<Rightarrow> jsnum \<Rightarrow> bool" where
  "num_eq NaN _ = False"
| "num_eq _ NaN = False"
| "num_eq a b = (a = b)"

definition num_le :: "jsnum \<Rightarrow> jsnum \<Rightarrow> bool" where
  "num_le a b = (num_less a b \<or> num_eq a b)"

definition isNaN :: "jsnum \<Rightarrow> bool" where
  "isNaN v = (v = NaN)"

fun isInteger :: "jsnum \<Rightarrow> bool" where
  "isInteger (Fin q) = (q = of_int \<lfloor>q\<rfloor>)"
| "isInteger _ = False"

text \<open>Truthiness of a number that may be \<^verbatim>\<open>null\<close>: neither \<open>0\<close> nor \<open>NaN\<close>.\<close>

fun truthy_num :: "jsnum option \<Rightarrow> bool" where
  "truthy_num None = False"
| "truthy_num (Some NaN) = False"
| "truthy_num (Some (Fin q)) = (q \<noteq> 0)"
| "truthy_num (Some _) = True"

subsection \<open>\<^verbatim>\<open>Number(string)\<close>\<close>

text \<open>
  The conversion of a string to a number follows the grammar of ECMAScript's
  \<open>StringNumericLiteral\<close>: white space around the literal is dropped, the empty literal
  is \<open>0\<close>, a decimal literal has an optional sign, an optional fraction and an optional
  exponent, \<^verbatim>\<open>Infinity\<close> is a literal, and the unsigned prefixes \<^verbatim>\<open>0x\<close>, \<^verbatim>\<open>0o\<close>,
  \<^verbatim>\<open>0b\<close> (in either case) introduce hexadecimal, octal and binary integers. Everything
  else is \<open>NaN\<close>. The value of a literal is its mathematical value rounded to binary64
  (correctly rounded, as V8 does for any number of digits).

  White space is \<open>WhiteSpace\<close> and \<open>LineTerminator\<close>: on this alphabet tab, line feed,
  vertical tab, form feed, carriage return, space and the no-break space U+00A0.
\<close>

definition isStrWhiteSpaceChar :: "char \<Rightarrow> bool" where
  "isStrWhiteSpaceChar c = ((of_char c :: nat) \<in> {9, 10, 11, 12, 13, 32, 160})"

definition trimString :: "string \<Rightarrow> string" where
  "trimString s =
     rev (dropWhile isStrWhiteSpaceChar (rev (dropWhile isStrWhiteSpaceChar s)))"

definition digitValue :: "char \<Rightarrow> nat" where
  "digitValue c =
     (let n = (of_char c :: nat)
      in if 48 \<le> n \<and> n \<le> 57 then n - 48
         else if 65 \<le> n \<and> n \<le> 70 then n - 55
         else if 97 \<le> n \<and> n \<le> 102 then n - 87
         else 36)"

definition isDigitOf :: "nat \<Rightarrow> char \<Rightarrow> bool" where
  "isDigitOf radix c = (digitValue c < radix)"

definition isDigits :: "nat \<Rightarrow> string \<Rightarrow> bool" where
  "isDigits radix s = (s \<noteq> [] \<and> list_all (isDigitOf radix) s)"

definition digitsValue :: "nat \<Rightarrow> string \<Rightarrow> nat" where
  "digitsValue radix s = foldl (\<lambda>a c. a * radix + digitValue c) 0 s"

definition signedInteger :: "string \<Rightarrow> int option" where
  "signedInteger s =
     (case s of
        [] \<Rightarrow> None
      | c # ds \<Rightarrow>
          if c = CHR ''+'' then
            (if isDigits 10 ds then Some (int (digitsValue 10 ds)) else None)
          else if c = CHR ''-'' then
            (if isDigits 10 ds then Some (- int (digitsValue 10 ds)) else None)
          else if isDigits 10 s then Some (int (digitsValue 10 s)) else None)"

definition isExponentIndicator :: "char \<Rightarrow> bool" where
  "isExponentIndicator c = (c = CHR ''e'' \<or> c = CHR ''E'')"

definition strUnsignedDecimalLiteral :: "string \<Rightarrow> jsnum" where
  "strUnsignedDecimalLiteral s =
     (if s = ''Infinity'' then PosInfinity
      else
        let mantissa = takeWhile (\<lambda>c. \<not> isExponentIndicator c) s;
            exponentPart = dropWhile (\<lambda>c. \<not> isExponentIndicator c) s;
            intDigits = takeWhile (isDigitOf 10) mantissa;
            afterInt = dropWhile (isDigitOf 10) mantissa;
            fracDigits = (case afterInt of [] \<Rightarrow> [] | _ # fs \<Rightarrow> fs);
            mantissaOk =
              (case afterInt of
                 [] \<Rightarrow> intDigits \<noteq> []
               | c # fs \<Rightarrow>
                   c = CHR ''.'' \<and> list_all (isDigitOf 10) fs \<and> (intDigits \<noteq> [] \<or> fs \<noteq> []));
            exponent = (case exponentPart of [] \<Rightarrow> Some 0 | _ # es \<Rightarrow> signedInteger es)
        in if \<not> mantissaOk then NaN
           else (case exponent of
                   None \<Rightarrow> NaN
                 | Some e \<Rightarrow>
                     toDouble (of_nat (digitsValue 10 (intDigits @ fracDigits))
                                 / 10 ^ length fracDigits
                                 * (if 0 \<le> e then 10 ^ nat e else 1 / 10 ^ nat (- e)))))"

definition strDecimalLiteral :: "string \<Rightarrow> jsnum" where
  "strDecimalLiteral s =
     (case s of
        [] \<Rightarrow> NaN
      | c # cs \<Rightarrow>
          if c = CHR ''+'' then strUnsignedDecimalLiteral cs
          else if c = CHR ''-'' then num_neg (strUnsignedDecimalLiteral cs)
          else strUnsignedDecimalLiteral s)"

definition nonDecimalIntegerLiteral :: "string \<Rightarrow> jsnum option" where
  "nonDecimalIntegerLiteral s =
     (case s of
        z # p # ds \<Rightarrow>
          if z \<noteq> CHR ''0'' then None
          else if (p = CHR ''x'' \<or> p = CHR ''X'') \<and> isDigits 16 ds
            then Some (toDouble (of_nat (digitsValue 16 ds)))
          else if (p = CHR ''o'' \<or> p = CHR ''O'') \<and> isDigits 8 ds
            then Some (toDouble (of_nat (digitsValue 8 ds)))
          else if (p = CHR ''b'' \<or> p = CHR ''B'') \<and> isDigits 2 ds
            then Some (toDouble (of_nat (digitsValue 2 ds)))
          else None
      | _ \<Rightarrow> None)"

definition stringToNumber :: "string \<Rightarrow> jsnum" where
  "stringToNumber s =
     (let t = trimString s
      in if t = [] then Fin 0
         else (case nonDecimalIntegerLiteral t of
                 Some v \<Rightarrow> v
               | None \<Rightarrow> strDecimalLiteral t))"

text \<open>\<^verbatim>\<open>Number(v)\<close> where \<open>v\<close> is a string or \<^verbatim>\<open>undefined\<close>.\<close>

fun Number_js :: "string option \<Rightarrow> jsnum" where
  "Number_js None = NaN"
| "Number_js (Some s) = stringToNumber s"

section \<open>The data of a request\<close>

text \<open>
  The payload after schema validation (\<^verbatim>\<open>{accounts[] {id, balance, currency}, instruction}\<close>),
  the accumulator \<^verbatim>\<open>parsed\<close>, the account snapshots of a response and the response
  itself, which is \<^verbatim>\<open>parsed\<close> extended by \<^verbatim>\<open>status\<close>, \<^verbatim>\<open>status_reason\<close> and
  \<^verbatim>\<open>status_code\<close>. The fields of an input account carry the prefix \<open>acc_\<close> and those
  of a snapshot the prefix \<open>snap_\<close>, since one theory cannot use a field name twice.
\<close>

record account =
  acc_id :: string
  acc_balance :: jsnum
  acc_currency :: string

record serviceData =
  data_accounts :: "account list"
  instruction :: string

record snapshot =
  snap_id :: string
  snap_balance :: jsnum
  snap_balance_before :: jsnum
  snap_currency :: string

record parsed =
  type :: "string option"
  amount :: "jsnum option"
  currency :: "string option"
  debit_account :: "string option"
  credit_account :: "string option"
  execute_by :: "string option"
  accounts :: "snapshot list"

record outcome = parsed +
  status :: string
  status_reason :: string
  status_code :: "string option"

text \<open>
  What the \<^verbatim>\<open>try\<close> block can throw: an application error made by \<^verbatim>\<open>throwAppError\<close>
  (message and code), or the \<^verbatim>\<open>TypeError\<close> that JavaScript raises on reading a property
  of \<^verbatim>\<open>undefined\<close>. A \<^verbatim>\<open>TypeError\<close> has a message and no \<^verbatim>\<open>errorCode\<close> property.
\<close>

datatype error = AppError string string | TypeError string

fun message :: "error \<Rightarrow> string" where
  "message (AppError m c) = m"
| "message (TypeError m) = m"

fun errorCode :: "error \<Rightarrow> string option" where
  "errorCode (AppError m c) = Some c"
| "errorCode (TypeError m) = None"

definition throwAppError :: "string \<Rightarrow> string \<Rightarrow> error" where
  "throwAppError m c = AppError m c"

text \<open>
  Modelled from the spec: \<^verbatim>\<open>messages/payment.js\<close> is not among the sources; the texts
  are those of the status table of the README.
\<close>

definition PaymentMessages :: "string \<Rightarrow> string" where
  "PaymentMessages key =
     (case map_of
        [(''SY01'', ''Missing keyword''),
         (''SY02'', ''Invalid keyword order''),
         (''SY03'', ''Malformed instruction''),
         (''AM01'', ''Invalid amount''),
         (''CU01'', ''Account currency mismatch''),
         (''CU02'', ''Unsupported currency''),
         (''AC01'', ''Insufficient funds''),
         (''AC02'', ''Debit and credit accounts cannot be the same''),
         (''AC03'', ''Account not found''),
         (''AC04'', ''Invalid account ID format''),
         (''DT01'', ''Invalid date format (must be YYYY-MM-DD)''),
         (''AP00'', ''Transaction executed successfully''),
         (''AP02'', ''Transaction scheduled for future execution'')] key of
        Some m \<Rightarrow> m
      | None \<Rightarrow> [])"

section \<open>Utility functions\<close>

text \<open>\<^verbatim>\<open>data.split(' ').filter(Boolean)\<close>: split at the space character, drop the empty pieces.\<close>

definition splitData :: "string \<Rightarrow> string list" where
  "splitData data = filter (\<lambda>w. w \<noteq> []) (split (CHR '' '') data)"

definition isPositiveInteger :: "jsnum \<Rightarrow> bool" where
  "isPositiveInteger v = (isInteger v \<and> num_less (Fin 0) v)"

definition isAllowedChar :: "char \<Rightarrow> bool" where
  "isAllowedChar c =
     (let n = (of_char c :: nat)
      in (65 \<le> n \<and> n \<le> 90) \<or> (97 \<le> n \<and> n \<le> 122) \<or> (48 \<le> n \<and> n \<le> 57)
         \<or> c = CHR ''-'' \<or> c = CHR ''.'' \<or> c = CHR ''@'')"

text \<open>
  \<^verbatim>\<open>isValidAccountId(id)\<close>: reading \<^verbatim>\<open>id.length\<close> of \<^verbatim>\<open>undefined\<close> throws; otherwise
  the loop answers \<^verbatim>\<open>false\<close> at the first character outside the allowed set.
\<close>

fun isValidAccountId :: "string option \<Rightarrow> error + bool" where
  "isValidAccountId None =
     Inl (TypeError ''Cannot read properties of undefined (reading 'length')'')"
| "isValidAccountId (Some i) = Inr (list_all isAllowedChar i)"

definition expected_DEBIT :: "string option list" where
  "expected_DEBIT =
     [Some ''DEBIT'', None, None, Some ''FROM'', Some ''ACCOUNT'', None,
      Some ''FOR'', Some ''CREDIT'', Some ''TO'', Some ''ACCOUNT'']"

definition expected_CREDIT :: "string option list" where
  "expected_CREDIT =
     [Some ''CREDIT'', None, None, Some ''TO'', Some ''ACCOUNT'', None,
      Some ''FOR'', Some ''DEBIT'', Some ''FROM'', Some ''ACCOUNT'']"

text \<open>
  The loop over \<^verbatim>\<open>expected\<close>, from index \<open>i\<close> on: \<open>True\<close> when it returns \<^verbatim>\<open>true\<close>
  (\<^verbatim>\<open>expected[i] && keywords[i]?.toUpperCase() !== expected[i]\<close>).
\<close>

fun mismatch :: "string option list \<Rightarrow> string list \<Rightarrow> nat \<Rightarrow> bool" where
  "mismatch [] keywords i = False"
| "mismatch (e # es) keywords i =
     (if truthy e \<and> map_option toUpperCase (item keywords i) \<noteq> e then True
      else mismatch es keywords (Suc i))"

definition isOutOfOrder :: "string list \<Rightarrow> string option \<Rightarrow> bool" where
  "isOutOfOrder keywords ty =
     (if ty = Some ''DEBIT'' \<and> mismatch expected_DEBIT keywords 0 then True
      else if ty = Some ''CREDIT'' \<and> mismatch expected_CREDIT keywords 0 then True
      else if truthy (item keywords 11)
              \<and> map_option toUpperCase (item keywords 11) \<noteq> Some ''ON'' then True
      else False)"

definition buildErrorResponse :: "error \<Rightarrow> parsed \<Rightarrow> outcome" where
  "buildErrorResponse err p =
     \<lparr>type = (if truthy (type p) then type p else None),
      amount = (if truthy_num (amount p) then amount p else None),
      currency = (if truthy (currency p) then currency p else None),
      debit_account = (if truthy (debit_account p) then debit_account p else None),
      credit_account = (if truthy (credit_account p) then credit_account p else None),
      execute_by = (if truthy (execute_by p) then execute_by p else None),
      accounts = accounts p,
      status = ''failed'',
      status_reason = message err,
      status_code = errorCode err\<rparr>"

section \<open>\<^verbatim>\<open>parseInstruction\<close>\<close>

text \<open>
  The function reads the clock once (\<^verbatim>\<open>new Date().toISOString().slice(0, 10)\<close>): the
  model takes that string, \<open>today\<close>, as an argument. The accounts are objects that the
  function changes in place, so the model returns the account array after the call next
  to the response. An account that \<^verbatim>\<open>accounts.find\<close> returned is kept as its index in
  the array, so that the two updates hit the very objects the program holds.
\<close>

fun findIndex :: "('a \<Rightarrow> bool) \<Rightarrow> 'a list \<Rightarrow> nat option" where
  "findIndex P [] = None"
| "findIndex P (x # xs) =
     (if P x then Some 0 else map_option Suc (findIndex P xs))"

definition supported :: "string list" where
  "supported = [''NGN'', ''USD'', ''GBP'', ''GHS'']"

definition normalizeKeywords :: "string list \<Rightarrow> string list" where
  "normalizeKeywords raw =
     map (\<lambda>(index, word). if index = 5 \<or> index = 10 then word else toUpperCase word)
       (enumerate 0 raw)"

definition initial_parsed :: parsed where
  "initial_parsed =
     \<lparr>type = None, amount = None, currency = None, debit_account = None,
      credit_account = None, execute_by = None, accounts = []\<rparr>"

text \<open>
  The \<^verbatim>\<open>try\<close> block is modelled in three parts that run one after the other. A
  \<^verbatim>\<open>throw\<close> is \<open>Inl\<close> of the error and of \<^verbatim>\<open>parsed\<close> as it is at that moment,
  which is what the \<^verbatim>\<open>catch\<close> block sees.

  First part (source lines 123 to 191), on the token array \<open>raw\<close>: the checks of the
  instruction itself, up to the date. It hands over \<^verbatim>\<open>parsed\<close> and \<^verbatim>\<open>amount\<close>.
\<close>

definition validateInstruction :: "string list \<Rightarrow> (error \<times> parsed) + (parsed \<times> jsnum)" where
  "validateInstruction raw =
     (let keywords = normalizeKeywords raw;
          p0 = initial_parsed
      in
      if length keywords < 8 then
        Inl (throwAppError (PaymentMessages ''SY01'') ''SY01'', p0)
      else if item keywords 0 \<noteq> Some ''DEBIT'' \<and> item keywords 0 \<noteq> Some ''CREDIT'' then
        Inl (throwAppError (PaymentMessages ''SY03'') ''SY03'', p0)
      else if isOutOfOrder keywords (item keywords 0) then
        Inl (throwAppError (PaymentMessages ''SY02'') ''SY02'', p0)
      else
      let ty = item keywords 0;
          debitAccId = item keywords 5;
          creditAccId = item keywords 10;
          p1 = (if ty = Some ''DEBIT''
                then p0\<lparr>debit_account := debitAccId, credit_account := creditAccId\<rparr>
                else p0\<lparr>debit_account := creditAccId, credit_account := debitAccId\<rparr>);
          p2 = p1\<lparr>type := ty\<rparr>;
          amt = Number_js (item keywords 1);
          p3 = p2\<lparr>amount := Some amt\<rparr>
      in
      if isNaN amt \<or> num_le amt (Fin 0) \<or> \<not> isPositiveInteger amt then
        Inl (throwAppError (PaymentMessages ''AM01'') ''AM01'', p3)
      else
      (case item keywords 2 of
         None \<Rightarrow>
           Inl (TypeError ''Cannot read properties of undefined (reading 'toUpperCase')'', p3)
       | Some k2 \<Rightarrow>
      let cur = toUpperCase k2 in
      if cur \<notin> set supported then
        Inl (throwAppError (PaymentMessages ''CU02'') ''CU02'', p3)
      else
      let p4 = p3\<lparr>currency := Some cur\<rparr> in
      (case isValidAccountId (item keywords 5) of
         Inl e \<Rightarrow> Inl (e, p4)
       | Inr ok5 \<Rightarrow>
      (case (if \<not> ok5 then Inr True
             else (case isValidAccountId (item keywords 10) of
                     Inl e \<Rightarrow> Inl e
                   | Inr ok10 \<Rightarrow> Inr (\<not> ok10))) of
         Inl e \<Rightarrow> Inl (e, p4)
       | Inr bad \<Rightarrow>
      if bad then
        Inl (throwAppError (PaymentMessages ''AC04'') ''AC04'', p4)
      else if truthy (item keywords 11)
              \<and> map_option toUpperCase (item keywords 11) = Some ''ON'' then
        (case item keywords 12 of
           None \<Rightarrow> Inl (throwAppError (PaymentMessages ''DT01'') ''DT01'', p4)
         | Some dateString \<Rightarrow>
             if dateString = [] then
               Inl (throwAppError (PaymentMessages ''DT01'') ''DT01'', p4)
             else if length dateString \<noteq> 10
                     \<or> item dateString 4 \<noteq> Some (CHR ''-'')
                     \<or> item dateString 7 \<noteq> Some (CHR ''-'') then
               Inl (throwAppError (PaymentMessages ''DT01'') ''DT01'', p4)
             else Inr (p4\<lparr>execute_by := Some dateString\<rparr>, amt))
      else Inr (p4, amt)))))"

text \<open>
  What the validations hand over to the last part of the \<^verbatim>\<open>try\<close> block: the
  accumulator, the amount, and the places of \<^verbatim>\<open>debitAcc\<close> and \<^verbatim>\<open>creditAcc\<close> in the
  account array.
\<close>

record validated =
  v_parsed :: parsed
  v_amount :: jsnum
  v_debitAcc :: nat
  v_creditAcc :: nat

text \<open>
  Second part (source lines 193 to 217): the two accounts are looked up and checked;
  \<open>amt\<close> is \<^verbatim>\<open>parsed.amount\<close>.
\<close>

definition validateAccounts :: "account list \<Rightarrow> parsed \<Rightarrow> jsnum \<Rightarrow> (error \<times> parsed) + validated" where
  "validateAccounts accs p amt =
     (case (findIndex (\<lambda>a. Some (acc_id a) = debit_account p) accs,
            findIndex (\<lambda>a. Some (acc_id a) = credit_account p) accs) of
        (Some d, Some c) \<Rightarrow>
          let debitAcc = accs ! d;
              creditAcc = accs ! c
          in
          if acc_currency debitAcc \<noteq> acc_currency creditAcc then
            Inl (throwAppError (PaymentMessages ''CU01'') ''CU01'', p)
          else if currency p \<noteq> Some (toUpperCase (acc_currency debitAcc)) then
            Inl (throwAppError (PaymentMessages ''CU01'') ''CU01'', p)
          else if debit_account p = credit_account p then
            Inl (throwAppError (PaymentMessages ''AC02'') ''AC02'', p)
          else if num_less (acc_balance debitAcc) amt then
            Inl (throwAppError (PaymentMessages ''AC01'') ''AC01'', p)
          else Inr \<lparr>v_parsed = p, v_amount = amt, v_debitAcc = d, v_creditAcc = c\<rparr>
      | _ \<Rightarrow> Inl (throwAppError (PaymentMessages ''AC03'') ''AC03'', p))"

text \<open>All the validations of the \<^verbatim>\<open>try\<close> block, in the order of the source.\<close>

definition validate :: "string list \<Rightarrow> account list \<Rightarrow> (error \<times> parsed) + validated" where
  "validate raw accs =
     (case validateInstruction raw of
        Inl thrown \<Rightarrow> Inl thrown
      | Inr (p, amt) \<Rightarrow> validateAccounts accs p amt)"

text \<open>The snapshot \<^verbatim>\<open>{id, balance, balance_before, currency}\<close> of an account object.\<close>

definition snapshot_of :: "account \<Rightarrow> jsnum \<Rightarrow> snapshot" where
  "snapshot_of a balanceBefore =
     \<lparr>snap_id = acc_id a, snap_balance = acc_balance a,
      snap_balance_before = balanceBefore, snap_currency = acc_currency a\<rparr>"

text \<open>
  Third part (source lines 219 to 258): the decision between
  \<^verbatim>\<open>successful\<close> and \<^verbatim>\<open>pending\<close>, the two updates, and the response
  \<^verbatim>\<open>{...parsed, status, status_code, status_reason}\<close>. \<^verbatim>\<open>parsed.execute_by > today\<close> is
  \<open>str_less today d\<close>.
\<close>

definition execute :: "string \<Rightarrow> account list \<Rightarrow> validated \<Rightarrow> outcome \<times> account list" where
  "execute today accs v =
     (let p = v_parsed v;
          d = v_debitAcc v;
          c = v_creditAcc v;
          debitBefore = acc_balance (accs ! d);
          creditBefore = acc_balance (accs ! c);
          pending = (case execute_by p of
                       None \<Rightarrow> False
                     | Some e \<Rightarrow> e \<noteq> [] \<and> str_less today e);
          st = (if pending then ''pending'' else ''successful'');
          statusCode = (if pending then ''AP02'' else ''AP00'');
          accs1 = (if st = ''successful''
                   then accs[d := (accs ! d)\<lparr>acc_balance := num_sub (acc_balance (accs ! d)) (v_amount v)\<rparr>]
                   else accs);
          accs2 = (if st = ''successful''
                   then accs1[c := (accs1 ! c)\<lparr>acc_balance := num_add (acc_balance (accs1 ! c)) (v_amount v)\<rparr>]
                   else accs1);
          p' = p\<lparr>accounts := [snapshot_of (accs2 ! d) debitBefore,
                                snapshot_of (accs2 ! c) creditBefore]\<rparr>
      in (parsed.extend p'
            \<lparr>status = st,
             status_reason = (if st = ''successful'' then PaymentMessages ''AP00''
                              else PaymentMessages ''AP02''),
             status_code = Some statusCode\<rparr>,
          accs2))"

text \<open>
  The \<^verbatim>\<open>catch\<close> block (source lines 259 to 286): when both account ids are set, the
  snapshots of the accounts that are found, \<^verbatim>\<open>null\<close> entries filtered out; then
  \<^verbatim>\<open>buildErrorResponse\<close>.
\<close>

definition catchBlock :: "account list \<Rightarrow> error \<Rightarrow> parsed \<Rightarrow> outcome" where
  "catchBlock accs err p =
     (let p' =
        (if truthy (debit_account p) \<and> truthy (credit_account p) then
           let debitAcc = find (\<lambda>a. Some (acc_id a) = debit_account p) accs;
               creditAcc = find (\<lambda>a. Some (acc_id a) = credit_account p) accs
           in p\<lparr>accounts :=
                  (case debitAcc of
                     None \<Rightarrow> []
                   | Some a \<Rightarrow> [snapshot_of a (acc_balance a)])
                  @ (case creditAcc of
                       None \<Rightarrow> []
                     | Some a \<Rightarrow> [snapshot_of a (acc_balance a)])\<rparr>
         else p)
      in buildErrorResponse err p')"

text \<open>
  The whole function on schema-valid data: the response, and the account array as the
  call leaves it.
\<close>

definition parseInstruction :: "string \<Rightarrow> serviceData \<Rightarrow> outcome \<times> account list" where
  "parseInstruction today data =
     (case validate (splitData (instruction data)) (data_accounts data) of
        Inl (err, p) \<Rightarrow> (catchBlock (data_accounts data) err p, data_accounts data)
      | Inr v \<Rightarrow> execute today (data_accounts data) v)"

section \<open>Requests used as examples\<close>

text \<open>The two accounts of the request shown in the README, and a request on them.\<close>

definition readme_accounts :: "account list" where
  "readme_accounts =
     [\<lparr>acc_id = ''ACC-001'', acc_balance = Fin 5000, acc_currency = ''NGN''\<rparr>,
      \<lparr>acc_id = ''ACC-002'', acc_balance = Fin 1500, acc_currency = ''NGN''\<rparr>]"

definition request :: "string \<Rightarrow> serviceData" where
  "request s = \<lparr>data_accounts = readme_accounts, instruction = s\<rparr>"

section \<open>The tokenizer as the specification words it\<close>

text \<open>
  The specification describes the tokenizer as splitting on whitespace and dropping the
  empty substrings. \<open>whitespace_words\<close> is that function, written from the
  specification's sentence and not from the source, with the white space of ECMAScript
  (tab, line feed, vertical tab, form feed, carriage return, space, no-break space).
  It is only there to be compared with \<open>splitData\<close>.
\<close>

fun pieces :: "(char \<Rightarrow> bool) \<Rightarrow> string \<Rightarrow> string list" where
  "pieces sep [] = [[]]"
| "pieces sep (c # cs) =
     (if sep c then [] # pieces sep cs
      else (case pieces sep cs of
              [] \<Rightarrow> [[c]]
            | w # ws \<Rightarrow> (c # w) # ws))"

definition whitespace_words :: "string \<Rightarrow> string list" where
  "whitespace_words s = filter (\<lambda>w. w \<noteq> []) (pieces isStrWhiteSpaceChar s)"

text \<open>
  The words of an instruction written out again with one space between them
  (\<^verbatim>\<open>words.join(' ')\<close>): the plainest instruction with these words.
\<close>

fun joinWords :: "string list \<Rightarrow> string" where
  "joinWords [] = []"
| "joinWords [w] = w"
| "joinWords (w # v # ws) = w @ CHR '' '' # joinWords (v # ws)"


section \<open>Binary64 rounding\<close>

lemma bitlen_numeral: "bitlen (numeral k) = 1 + bitlen (numeral k div 2)"
  by (subst bitlen.simps) simp

lemma bitlen_0: "bitlen 0 = 0"
  by (subst bitlen.simps) simp

lemma bitlen_1: "bitlen 1 = 1"
  by (subst bitlen.simps) (simp add: bitlen_0)

text \<open>A positive integer lies between the powers of two that its bit length names.\<close>

lemma bitlen_bounds:
  "0 < n \<Longrightarrow> 1 \<le> bitlen n \<and> 2 ^ nat (bitlen n - 1) \<le> n \<and> n < 2 ^ nat (bitlen n)"
proof (induction n rule: bitlen.induct)
  case (1 n)
  show ?case
  proof (cases "n div 2 = 0")
    case True
    with "1.prems" have n: "n = 1" by presburger
    have "bitlen 1 = 1" by (rule bitlen_1)
    with n show ?thesis by simp
  next
    case False
    with "1.prems" have pos: "0 < n div 2" by presburger
    from "1.IH" [OF _ pos] "1.prems"
    have ih: "1 \<le> bitlen (n div 2)" "2 ^ nat (bitlen (n div 2) - 1) \<le> n div 2"
      "n div 2 < 2 ^ nat (bitlen (n div 2))"
      by simp_all
    have b: "bitlen n = 1 + bitlen (n div 2)"
      using "1.prems" by (subst bitlen.simps) simp
    have e1: "nat (bitlen n - 1) = Suc (nat (bitlen (n div 2) - 1))"
      using ih(1) b by simp
    have e2: "nat (bitlen n) = Suc (nat (bitlen (n div 2)))"
      using ih(1) b by simp
    have lo: "2 ^ nat (bitlen n - 1) \<le> n"
      unfolding e1 using ih(2) by simp
    have hi: "n < 2 ^ nat (bitlen n)"
      unfolding e2 using ih(3) by simp
    from b ih(1) lo hi show ?thesis by simp
  qed
qed

lemma roundHalfEven_of_int: "roundHalfEven (of_int k) = k"
  by (simp add: roundHalfEven_def)

lemma roundHalfEven_ge: "of_int k \<le> m \<Longrightarrow> k \<le> roundHalfEven m"
proof -
  assume "of_int k \<le> m"
  then have "k \<le> \<lfloor>m\<rfloor>" by (simp add: le_floor_iff)
  then show ?thesis by (simp add: roundHalfEven_def Let_def)
qed

text \<open>The integers below \<open>2^53\<close> are binary64 values: rounding leaves them alone.\<close>

lemma toDouble_pos_int:
  assumes "0 < n" and "n < 2 ^ 53"
  shows "toDouble (of_int n) = Fin (of_int n)"
proof -
  let ?b = "bitlen n"
  from bitlen_bounds [OF assms(1)]
  have b1: "1 \<le> ?b" and lo: "2 ^ nat (?b - 1) \<le> n" and hi: "n < 2 ^ nat ?b"
    by simp_all
  have b53: "?b \<le> 53"
  proof (rule ccontr)
    assume "\<not> ?b \<le> 53"
    then have "53 \<le> nat (?b - 1)" by simp
    then have "(2::int) ^ 53 \<le> 2 ^ nat (?b - 1)"
      by (rule power_increasing) simp
    with lo assms(2) show False by simp
  qed
  have one: "(1::rat) \<le> of_int n" using assms(1) by simp
  have fl: "floor_log2 (of_int n) = ?b - 1"
    using one by (simp add: floor_log2_def)
  define k where "k = nat (53 - ?b)"
  have e: "max (?b - 1) (- 1022) = ?b - 1" using b1 by simp
  have ulp: "pow2 (?b - 1 - 52) = 1 / 2 ^ k"
  proof (cases "?b = 53")
    case True
    then show ?thesis by (simp add: pow2_def k_def)
  next
    case False
    with b53 have "?b - 1 - 52 < 0" by simp
    moreover have "nat (- (?b - 1 - 52)) = k" by (simp add: k_def)
    ultimately show ?thesis by (simp add: pow2_def)
  qed
  have q: "(of_int n :: rat) / (1 / 2 ^ k) = of_int (n * 2 ^ k)" by simp
  have r: "of_int (roundHalfEven ((of_int n :: rat) / (1 / 2 ^ k))) * (1 / 2 ^ k) = (of_int n :: rat)"
    unfolding q roundHalfEven_of_int by simp
  have "(of_int n :: rat) < of_int (2 ^ 53)" using assms(2) by (simp only: of_int_less_iff)
  also have "(of_int (2 ^ 53) :: rat) \<le> 2 ^ 1024" by simp
  finally have small: "\<not> pow2 1024 \<le> (of_int n :: rat)" by (simp add: pow2_def)
  have nz: "(of_int n :: rat) \<noteq> 0" and nn: "\<not> (of_int n :: rat) < 0" using assms(1) by simp_all
  have ab: "\<bar>of_int n :: rat\<bar> = of_int n" using assms(1) by simp
  show ?thesis
    unfolding toDouble_def Let_def ab fl e ulp r using nz nn small by simp
qed

lemma toDouble_numeral:
  "numeral k < (2::int) ^ 53 \<Longrightarrow> toDouble (numeral k) = Fin (numeral k)"
  using toDouble_pos_int [of "numeral k"] by simp

lemma toDouble_0: "toDouble 0 = Fin 0"
  by (simp add: toDouble_def)

lemma toDouble_1: "toDouble 1 = Fin 1"
  using toDouble_pos_int [of 1] by simp

text \<open>From \<open>2^1024\<close> on, rounding gives the infinity.\<close>

lemma toDouble_overflow:
  assumes "2 ^ 1024 \<le> q"
  shows "toDouble q = PosInfinity"
proof -
  let ?n = "\<lfloor>q\<rfloor>"
  let ?b = "bitlen ?n"
  have qpos: "0 < q" using assms by (rule less_le_trans [rotated]) simp
  have n1024: "(2::int) ^ 1024 \<le> ?n"
    using assms by (simp add: le_floor_iff)
  then have npos: "0 < ?n" by (rule less_le_trans [rotated]) simp
  from bitlen_bounds [OF npos]
  have b1: "1 \<le> ?b" and lo: "2 ^ nat (?b - 1) \<le> ?n" and hi: "?n < 2 ^ nat ?b"
    by simp_all
  from n1024 hi have "(2::int) ^ 1024 < 2 ^ nat ?b" by (rule le_less_trans)
  then have "1024 < nat ?b" by (rule power_less_imp_less_exp [rotated]) simp
  then have e1024: "1024 \<le> ?b - 1" by simp
  have one: "1 \<le> q" using assms by (rule order_trans [rotated]) simp
  have fl: "floor_log2 q = ?b - 1" using one by (simp add: floor_log2_def)
  have e: "max (?b - 1) (- 1022) = ?b - 1" using b1 by simp
  define j where "j = nat (?b - 1 - 52)"
  have ulp: "pow2 (?b - 1 - 52) = 2 ^ j" using e1024 by (simp add: pow2_def j_def)
  have split: "nat (?b - 1) = 52 + j" using e1024 by (simp add: j_def)
  have "(2::rat) ^ (52 + j) = of_int (2 ^ nat (?b - 1))" by (simp add: split)
  also have "\<dots> \<le> of_int ?n" using lo by (simp only: of_int_le_iff)
  also have "\<dots> \<le> q" by simp
  finally have big: "(2::rat) ^ 52 * 2 ^ j \<le> q" by (simp add: power_add)
  then have "(2::rat) ^ 52 \<le> q / 2 ^ j" by (simp add: pos_le_divide_eq)
  then have "of_int (2 ^ 52) \<le> q / 2 ^ j" by simp
  then have "2 ^ 52 \<le> roundHalfEven (q / 2 ^ j)" by (rule roundHalfEven_ge)
  then have "(of_int (2 ^ 52) :: rat) \<le> of_int (roundHalfEven (q / 2 ^ j))"
    by (simp only: of_int_le_iff)
  then have m: "(of_int (2 ^ 52) :: rat) * 2 ^ j \<le> of_int (roundHalfEven (q / 2 ^ j)) * 2 ^ j"
    by (rule mult_right_mono) simp
  have "pow2 1024 = 2 ^ 1024" by (simp add: pow2_def)
  also have "(2::rat) ^ 1024 \<le> 2 ^ (52 + j)"
    using e1024 split by (intro power_increasing) simp_all
  also have "(2::rat) ^ (52 + j) = of_int (2 ^ 52) * 2 ^ j"
    by (simp only: power_add of_int_power of_int_numeral)
  also note m
  finally have r: "pow2 1024 \<le> of_int (roundHalfEven (q / 2 ^ j)) * 2 ^ j" .
  have ab: "\<bar>q\<bar> = q" using qpos by simp
  show ?thesis
    unfolding toDouble_def Let_def ab fl e ulp using r qpos by simp
qed


lemma toDouble_tie_to_even: "toDouble 9007199254740993 = Fin 9007199254740992"
  by code_simp

lemma toDouble_long_fraction:
  "toDouble (20000000000000000001 / 10000000000000000) = Fin 2000"
  by code_simp

section \<open>Evaluation and basic facts\<close>

lemmas Number_js_defs =
  stringToNumber_def trimString_def isStrWhiteSpaceChar_def nonDecimalIntegerLiteral_def
  strDecimalLiteral_def strUnsignedDecimalLiteral_def signedInteger_def
  isExponentIndicator_def isDigits_def isDigitOf_def digitValue_def digitsValue_def
  toDouble_numeral toDouble_0 toDouble_1

lemmas parse_defs =
  parseInstruction_def validate_def validateInstruction_def validateAccounts_def
  execute_def catchBlock_def buildErrorResponse_def
  splitData_def normalizeKeywords_def initial_parsed_def isOutOfOrder_def expected_DEBIT_def
  expected_CREDIT_def supported_def isPositiveInteger_def isAllowedChar_def
  throwAppError_def PaymentMessages_def snapshot_of_def item_def toUpperCase_def
  toUpperChar_def isNaN_def num_le_def num_sub_def Let_def
  parsed.extend_def request_def readme_accounts_def

text \<open>
  What \<^verbatim>\<open>Number\<close> makes of some amount tokens: a literal beyond the largest binary64
  value, one with more digits than binary64 keeps, an odd integer above \<open>2^53\<close>, and an
  amount behind a no-break space.
\<close>

lemma Number_js_overflow: "Number_js (Some ''1E309'') = PosInfinity"
proof -
  have "Number_js (Some ''1E309'') = toDouble (10 ^ 309)"
    by (simp add: Number_js_defs del: power_numeral)
  also have "\<dots> = PosInfinity" by (rule toDouble_overflow) simp
  finally show ?thesis .
qed

lemma Number_js_long_fraction: "Number_js (Some ''2000.0000000000000001'') = Fin 2000"
  by (simp add: Number_js_defs toDouble_long_fraction)

lemma Number_js_above_2_53: "Number_js (Some ''9007199254740993'') = Fin 9007199254740992"
  by (simp add: Number_js_defs toDouble_tie_to_even)

lemma Number_js_no_break_space: "Number_js (Some (CHR 0xA0 # ''2000'')) = Fin 2000"
  by (simp add: Number_js_defs)

lemma findIndex_Some:
  "findIndex P xs = Some i \<Longrightarrow> i < length xs \<and> P (xs ! i)"
proof (induction xs arbitrary: i)
  case Nil
  then show ?case by simp
next
  case (Cons x xs)
  then show ?case by (auto split: if_splits)
qed

lemma num_le_not_less: "num_le a b \<Longrightarrow> \<not> num_less b a"
  by (cases a; cases b) (auto simp: num_le_def)

lemma isPositiveInteger_Fin: "isPositiveInteger (Fin a) \<Longrightarrow> 0 < a"
  by (simp add: isPositiveInteger_def)

lemma toUpperCase_supported: "s \<in> set supported \<Longrightarrow> toUpperCase s = s"
  by (auto simp: supported_def toUpperCase_def toUpperChar_def)

lemma status_catchBlock: "status (catchBlock accs e p) = ''failed''"
  by (simp add: catchBlock_def buildErrorResponse_def Let_def)

lemma status_execute:
  "status (fst (execute today accs v)) = ''successful''
   \<or> status (fst (execute today accs v)) = ''pending''"
  by (simp add: execute_def Let_def parsed.extend_def)

lemma validateAccounts_Inr:
  assumes "validateAccounts accs p amt = Inr v"
  shows "v_parsed v = p \<and> v_amount v = amt
         \<and> v_debitAcc v < length accs \<and> v_creditAcc v < length accs
         \<and> v_debitAcc v \<noteq> v_creditAcc v"
  using assms unfolding validateAccounts_def Let_def
  by (auto split: if_splits option.splits prod.splits dest!: findIndex_Some)

lemma validateAccounts_found:
  assumes "validateAccounts accs p amt = Inr v"
  shows "findIndex (\<lambda>a. Some (acc_id a) = debit_account p) accs = Some (v_debitAcc v)
         \<and> findIndex (\<lambda>a. Some (acc_id a) = credit_account p) accs = Some (v_creditAcc v)"
  using assms unfolding validateAccounts_def Let_def
  by (auto split: if_splits option.splits prod.splits)

lemma validateInstruction_amount:
  assumes "validateInstruction raw = Inr (p, amt)"
  shows "amount p = Some amt"
  using assms unfolding validateInstruction_def Let_def
  by (auto split: if_splits option.splits sum.splits)

lemma validate_Inr:
  assumes "validate raw accs = Inr v"
  shows "\<exists>p amt. validateInstruction raw = Inr (p, amt) \<and> validateAccounts accs p amt = Inr v"
  using assms by (auto simp: validate_def split: sum.splits)

lemma validate_Inr_props:
  assumes "validate raw accs = Inr v"
  shows "v_debitAcc v < length accs \<and> v_creditAcc v < length accs
         \<and> v_debitAcc v \<noteq> v_creditAcc v \<and> amount (v_parsed v) = Some (v_amount v)"
proof -
  from validate_Inr [OF assms] obtain p amt
    where i: "validateInstruction raw = Inr (p, amt)"
      and a: "validateAccounts accs p amt = Inr v"
    by blast
  from validateAccounts_Inr [OF a] validateInstruction_amount [OF i] show ?thesis by simp
qed

lemma validate_Inr_found:
  assumes "validate raw accs = Inr v"
  shows "findIndex (\<lambda>a. Some (acc_id a) = debit_account (v_parsed v)) accs = Some (v_debitAcc v)
         \<and> findIndex (\<lambda>a. Some (acc_id a) = credit_account (v_parsed v)) accs
             = Some (v_creditAcc v)"
proof -
  from validate_Inr [OF assms] obtain p amt
    where a: "validateAccounts accs p amt = Inr v"
    by blast
  from validateAccounts_Inr [OF a] validateAccounts_found [OF a] show ?thesis by simp
qed

lemma execute_accounts:
  assumes "v_debitAcc v \<noteq> v_creditAcc v"
  shows "snd (execute today accs v) =
     (if status (fst (execute today accs v)) = ''successful''
      then accs[v_debitAcc v := (accs ! v_debitAcc v)
                  \<lparr>acc_balance := num_sub (acc_balance (accs ! v_debitAcc v)) (v_amount v)\<rparr>,
                v_creditAcc v := (accs ! v_creditAcc v)
                  \<lparr>acc_balance := num_add (acc_balance (accs ! v_creditAcc v)) (v_amount v)\<rparr>]
      else accs)"
  using assms by (simp add: execute_def Let_def parsed.extend_def)

lemma failed_iff_thrown:
  "status (fst (parseInstruction today data)) = ''failed''
   \<longleftrightarrow> (\<exists>thrown. validate (splitData (instruction data)) (data_accounts data) = Inl thrown)"
proof (cases "validate (splitData (instruction data)) (data_accounts data)")
  case (Inl thrown)
  then show ?thesis
    by (cases thrown) (simp add: parseInstruction_def status_catchBlock)
next
  case (Inr v)
  then show ?thesis
    using status_execute [of today "data_accounts data" v]
    by (auto simp: parseInstruction_def)
qed

section \<open>Immediate execution of a DEBIT instruction\<close>

text \<open>
  Claim C1, as the program has it. The instruction has exactly the eleven tokens of the
  DEBIT skeleton (so no \<^verbatim>\<open>ON\<close> clause), its keywords match whatever their case, the
  amount token converts to a positive integer \<open>a\<close>, the currency is supported, both
  account ids use allowed characters only and are two different ids, both accounts are
  in the account array, at \<open>d\<close> and \<open>c\<close>, with one currency that is the stated one, and
  the debit balance is at least \<open>a\<close>. Then the response is \<^verbatim>\<open>successful\<close> with code
  \<^verbatim>\<open>AP00\<close>, its two snapshots are those of the debit and of the credit account with
  \<open>balance = balance_before - a\<close> and \<open>balance = balance_before + a\<close> (the difference and
  the sum of the program, in binary64), and the account array holds the same two new
  balances.
\<close>

theorem debit_without_date_succeeds:
  assumes tokens: "splitData (instruction data) = [t0, amt, cur, t3, t4, dId, t6, t7, t8, t9, cId]"
    and skeleton: "toUpperCase t0 = ''DEBIT''" "toUpperCase t3 = ''FROM''"
      "toUpperCase t4 = ''ACCOUNT''" "toUpperCase t6 = ''FOR''" "toUpperCase t7 = ''CREDIT''"
      "toUpperCase t8 = ''TO''" "toUpperCase t9 = ''ACCOUNT''"
    and amount: "Number_js (Some (toUpperCase amt)) = Fin a" "isPositiveInteger (Fin a)"
    and cur: "toUpperCase cur \<in> set supported"
    and ids: "list_all isAllowedChar dId" "list_all isAllowedChar cId" "dId \<noteq> cId"
    and found: "findIndex (\<lambda>x. Some (acc_id x) = Some dId) (data_accounts data) = Some d"
      "findIndex (\<lambda>x. Some (acc_id x) = Some cId) (data_accounts data) = Some c"
    and currencies: "acc_currency (data_accounts data ! d) = acc_currency (data_accounts data ! c)"
      "toUpperCase (acc_currency (data_accounts data ! d)) = toUpperCase cur"
    and funds: "num_le (Fin a) (acc_balance (data_accounts data ! d))"
  shows "status (fst (parseInstruction today data)) = ''successful''
    \<and> status_code (fst (parseInstruction today data)) = Some ''AP00''
    \<and> map snap_id (accounts (fst (parseInstruction today data))) = [dId, cId]
    \<and> map snap_balance_before (accounts (fst (parseInstruction today data)))
        = [acc_balance (data_accounts data ! d), acc_balance (data_accounts data ! c)]
    \<and> map snap_balance (accounts (fst (parseInstruction today data)))
        = [num_sub (acc_balance (data_accounts data ! d)) (Fin a),
           num_add (acc_balance (data_accounts data ! c)) (Fin a)]
    \<and> snd (parseInstruction today data) =
        (data_accounts data)
          [d := (data_accounts data ! d)
                  \<lparr>acc_balance := num_sub (acc_balance (data_accounts data ! d)) (Fin a)\<rparr>,
           c := (data_accounts data ! c)
                  \<lparr>acc_balance := num_add (acc_balance (data_accounts data ! c)) (Fin a)\<rparr>]"
proof -
  let ?accs = "data_accounts data"
  let ?ks = "[''DEBIT'', toUpperCase amt, toUpperCase cur, ''FROM'', ''ACCOUNT'', dId,
              ''FOR'', ''CREDIT'', ''TO'', ''ACCOUNT'', cId]"
  have kw: "normalizeKeywords (splitData (instruction data)) = ?ks"
    using skeleton by (simp add: tokens normalizeKeywords_def)
  have ord: "\<not> isOutOfOrder ?ks (Some ''DEBIT'')"
    by (simp add: isOutOfOrder_def expected_DEBIT_def item_def toUpperCase_def toUpperChar_def)
  from findIndex_Some [OF found(1)] findIndex_Some [OF found(2)] ids(3)
  have dc: "d < length ?accs" "c < length ?accs" "d \<noteq> c"
    "acc_id (?accs ! d) = dId" "acc_id (?accs ! c) = cId"
    by auto
  have pos: "0 < a" using amount(2) by (rule isPositiveInteger_Fin)
  let ?p = "\<lparr>type = Some ''DEBIT'', amount = Some (Fin a),
             currency = Some (toUpperCase cur), debit_account = Some dId,
             credit_account = Some cId, execute_by = None, accounts = []\<rparr>"
  have i: "validateInstruction (splitData (instruction data)) = Inr (?p, Fin a)"
    unfolding validateInstruction_def kw Let_def
    using ord amount cur ids pos
    by (simp add: item_def initial_parsed_def isNaN_def num_le_def toUpperCase_supported)
  have v: "validate (splitData (instruction data)) ?accs =
      Inr \<lparr>v_parsed = ?p, v_amount = Fin a, v_debitAcc = d, v_creditAcc = c\<rparr>"
    unfolding validate_def i validateAccounts_def Let_def
    using ids found currencies num_le_not_less [OF funds]
    by simp
  show ?thesis
    using dc
    by (simp add: parseInstruction_def v execute_def Let_def parsed.extend_def snapshot_of_def)
qed

text \<open>
  The request of the README: \<^verbatim>\<open>DEBIT 2000 NGN FROM ACCOUNT ACC-001 FOR CREDIT TO ACCOUNT ACC-002\<close>
  on the balances 5000 and 1500 gives 3000 and 3500.
\<close>

theorem debit_without_date_succeeds_witness:
  "status (fst (parseInstruction ''2026-11-03''
      (request ''DEBIT 2000 NGN FROM ACCOUNT ACC-001 FOR CREDIT TO ACCOUNT ACC-002''))) = ''successful''
   \<and> status_code (fst (parseInstruction ''2026-11-03''
      (request ''DEBIT 2000 NGN FROM ACCOUNT ACC-001 FOR CREDIT TO ACCOUNT ACC-002''))) = Some ''AP00''
   \<and> map snap_balance (accounts (fst (parseInstruction ''2026-11-03''
      (request ''DEBIT 2000 NGN FROM ACCOUNT ACC-001 FOR CREDIT TO ACCOUNT ACC-002''))))
       = [Fin 3000, Fin 3500]"
proof -
  let ?data = "request ''DEBIT 2000 NGN FROM ACCOUNT ACC-001 FOR CREDIT TO ACCOUNT ACC-002''"
  have tk: "splitData (instruction ?data)
      = [''DEBIT'', ''2000'', ''NGN'', ''FROM'', ''ACCOUNT'', ''ACC-001'',
         ''FOR'', ''CREDIT'', ''TO'', ''ACCOUNT'', ''ACC-002'']"
    by (simp add: request_def splitData_def)
  have n: "Number_js (Some (toUpperCase ''2000'')) = Fin 2000"
    by (simp add: toUpperCase_def toUpperChar_def Number_js_defs)
  have f: "findIndex (\<lambda>x. Some (acc_id x) = Some ''ACC-001'') (data_accounts ?data) = Some 0"
    "findIndex (\<lambda>x. Some (acc_id x) = Some ''ACC-002'') (data_accounts ?data) = Some 1"
    by (simp_all add: request_def readme_accounts_def)
  have "status (fst (parseInstruction ''2026-11-03'' ?data)) = ''successful''
    \<and> status_code (fst (parseInstruction ''2026-11-03'' ?data)) = Some ''AP00''
    \<and> map snap_id (accounts (fst (parseInstruction ''2026-11-03'' ?data))) = [''ACC-001'', ''ACC-002'']
    \<and> map snap_balance_before (accounts (fst (parseInstruction ''2026-11-03'' ?data)))
        = [acc_balance (data_accounts ?data ! 0), acc_balance (data_accounts ?data ! 1)]
    \<and> map snap_balance (accounts (fst (parseInstruction ''2026-11-03'' ?data)))
        = [num_sub (acc_balance (data_accounts ?data ! 0)) (Fin 2000),
           num_add (acc_balance (data_accounts ?data ! 1)) (Fin 2000)]
    \<and> snd (parseInstruction ''2026-11-03'' ?data) =
        (data_accounts ?data)
          [0 := (data_accounts ?data ! 0)
                  \<lparr>acc_balance := num_sub (acc_balance (data_accounts ?data ! 0)) (Fin 2000)\<rparr>,
           1 := (data_accounts ?data ! 1)
                  \<lparr>acc_balance := num_add (acc_balance (data_accounts ?data ! 1)) (Fin 2000)\<rparr>]"
  proof (rule debit_without_date_succeeds [OF tk _ _ _ _ _ _ _ n _ _ _ _ _ f])
    show "isPositiveInteger (Fin 2000)" by (simp add: isPositiveInteger_def)
    show "num_le (Fin 2000) (acc_balance (data_accounts ?data ! 0))"
      by (simp add: request_def readme_accounts_def num_le_def)
  qed (simp_all add: toUpperCase_def toUpperChar_def supported_def isAllowedChar_def
        request_def readme_accounts_def)
  then show ?thesis
    by (simp add: request_def readme_accounts_def num_sub_def toDouble_numeral)
qed

text \<open>
  Claim C1, as the specification has it, does not ask for two different accounts, and
  fails without: a well-formed DEBIT instruction without date, in the currency of the
  account and within its balance, but from an account to itself, is refused with
  \<^verbatim>\<open>AC02\<close> and moves nothing.
\<close>

theorem debit_to_same_account_counterexample:
  "status (fst (parseInstruction ''2026-11-03''
      (request ''DEBIT 2000 NGN FROM ACCOUNT ACC-001 FOR CREDIT TO ACCOUNT ACC-001''))) = ''failed''
   \<and> status_code (fst (parseInstruction ''2026-11-03''
      (request ''DEBIT 2000 NGN FROM ACCOUNT ACC-001 FOR CREDIT TO ACCOUNT ACC-001''))) = Some ''AC02''
   \<and> snd (parseInstruction ''2026-11-03''
      (request ''DEBIT 2000 NGN FROM ACCOUNT ACC-001 FOR CREDIT TO ACCOUNT ACC-001'')) = readme_accounts"
  by (simp add: parse_defs Number_js_defs)

section \<open>Scheduling\<close>

lemma length_normalizeKeywords: "length (normalizeKeywords raw) = length raw"
  by (simp add: normalizeKeywords_def)

lemma normalizeKeywords_take: "normalizeKeywords (take n raw) = take n (normalizeKeywords raw)"
  by (rule nth_equalityI) (simp_all add: normalizeKeywords_def nth_enumerate_eq)

lemma item_take: "item (take n xs) i = (if i < n then item xs i else None)"
  by (simp add: item_def)

text \<open>The loop over \<open>expected\<close> reads the keywords at its own indices only.\<close>

lemma mismatch_cong:
  "(\<And>j. j < length es \<Longrightarrow> item ks' (i + j) = item ks (i + j))
    \<Longrightarrow> mismatch es ks' i = mismatch es ks i"
proof (induction es arbitrary: i)
  case Nil
  then show ?case by simp
next
  case (Cons e es)
  have here: "item ks' i = item ks i"
    using Cons.prems [of 0] by simp
  have "mismatch es ks' (Suc i) = mismatch es ks (Suc i)"
  proof (rule Cons.IH)
    fix j assume "j < length es"
    then show "item ks' (Suc i + j) = item ks (Suc i + j)"
      using Cons.prems [of "Suc j"] by simp
  qed
  with here show ?case by simp
qed

lemma isOutOfOrder_take:
  assumes "\<not> isOutOfOrder ks ty"
  shows "\<not> isOutOfOrder (take 11 ks) ty"
proof -
  have d: "mismatch expected_DEBIT (take 11 ks) 0 = mismatch expected_DEBIT ks 0"
    by (rule mismatch_cong) (simp add: item_take expected_DEBIT_def)
  have c: "mismatch expected_CREDIT (take 11 ks) 0 = mismatch expected_CREDIT ks 0"
    by (rule mismatch_cong) (simp add: item_take expected_CREDIT_def)
  show ?thesis
    using assms by (auto simp: isOutOfOrder_def d c item_take split: if_splits)
qed

text \<open>
  An instruction that passes the checks with a date passes them without its \<^verbatim>\<open>ON\<close>
  clause too, with the same fields but the date.
\<close>

lemma validateInstruction_without_date:
  assumes v: "validateInstruction raw = Inr (p, amt)"
    and e: "execute_by p = Some e"
  shows "validateInstruction (take 11 raw) = Inr (p\<lparr>execute_by := None\<rparr>, amt) \<and> e \<noteq> []"
proof -
  let ?ks = "normalizeKeywords raw"
  have ord: "\<not> isOutOfOrder ?ks ty \<Longrightarrow> \<not> isOutOfOrder (take 11 ?ks) ty" for ty
    by (rule isOutOfOrder_take)
  have len: "13 \<le> length ?ks"
    using v e unfolding validateInstruction_def Let_def
    by (auto simp: item_def initial_parsed_def split: if_splits option.splits sum.splits)
  then have len': "length (take 11 ?ks) = 11" by simp
  show ?thesis
    using v e ord unfolding validateInstruction_def [of "take 11 raw"] normalizeKeywords_take
    unfolding validateInstruction_def Let_def
    by (auto simp: item_take len' initial_parsed_def split: if_splits option.splits sum.splits)
qed

lemma validateAccounts_without_date:
  assumes "validateAccounts accs p amt = Inr v"
  shows "validateAccounts accs (p\<lparr>execute_by := None\<rparr>) amt
         = Inr (v\<lparr>v_parsed := p\<lparr>execute_by := None\<rparr>\<rparr>)"
  using assms unfolding validateAccounts_def Let_def
  by (auto split: if_splits option.splits prod.splits)

lemma validate_without_date:
  assumes v: "validate raw accs = Inr v"
    and e: "execute_by (v_parsed v) = Some e"
  shows "validate (take 11 raw) accs = Inr (v\<lparr>v_parsed := (v_parsed v)\<lparr>execute_by := None\<rparr>\<rparr>)
         \<and> e \<noteq> []"
proof -
  from validate_Inr [OF v] obtain p amt
    where i: "validateInstruction raw = Inr (p, amt)"
      and a: "validateAccounts accs p amt = Inr v"
    by blast
  from validateAccounts_Inr [OF a] have p: "v_parsed v = p" by simp
  from validateInstruction_without_date [OF i e [unfolded p]]
    validateAccounts_without_date [OF a]
  show ?thesis by (simp add: validate_def p)
qed

text \<open>
  Claim C2. The request passes every validation (its response is not \<^verbatim>\<open>failed\<close>) and
  carries a date \<open>e\<close>; \<open>data0\<close> is the same request without the \<^verbatim>\<open>ON\<close> clause (the
  same accounts, the first eleven tokens). If \<open>e\<close> is greater than today's date as a
  string, the response is \<^verbatim>\<open>pending\<close> with code \<^verbatim>\<open>AP02\<close> and the accounts are as they
  were. Otherwise the response is \<^verbatim>\<open>successful\<close> with code \<^verbatim>\<open>AP00\<close> and the balances
  are changed: the account array is the one that came in with the amount taken from
  the debit account and added to the credit account, two different accounts; and the
  request without the date gives the same response but for \<^verbatim>\<open>execute_by\<close>, and the same
  accounts.
\<close>

theorem date_decides_pending_or_immediate:
  assumes ok: "status (fst (parseInstruction today data)) \<noteq> ''failed''"
    and date: "execute_by (fst (parseInstruction today data)) = Some e"
    and same: "data_accounts data0 = data_accounts data"
      "splitData (instruction data0) = take 11 (splitData (instruction data))"
  shows "(str_less today e \<longrightarrow>
            status (fst (parseInstruction today data)) = ''pending''
          \<and> status_code (fst (parseInstruction today data)) = Some ''AP02''
          \<and> snd (parseInstruction today data) = data_accounts data)
       \<and> (\<not> str_less today e \<longrightarrow>
            status (fst (parseInstruction today data)) = ''successful''
          \<and> status_code (fst (parseInstruction today data)) = Some ''AP00''
          \<and> (\<exists>d c a.
                findIndex (\<lambda>x. Some (acc_id x) = debit_account (fst (parseInstruction today data)))
                  (data_accounts data) = Some d
              \<and> findIndex (\<lambda>x. Some (acc_id x) = credit_account (fst (parseInstruction today data)))
                  (data_accounts data) = Some c
              \<and> d \<noteq> c
              \<and> amount (fst (parseInstruction today data)) = Some a
              \<and> snd (parseInstruction today data) =
                  (data_accounts data)
                    [d := (data_accounts data ! d)
                            \<lparr>acc_balance := num_sub (acc_balance (data_accounts data ! d)) a\<rparr>,
                     c := (data_accounts data ! c)
                            \<lparr>acc_balance := num_add (acc_balance (data_accounts data ! c)) a\<rparr>])
          \<and> status (fst (parseInstruction today data0)) = ''successful''
          \<and> fst (parseInstruction today data0)
              = (fst (parseInstruction today data))\<lparr>execute_by := None\<rparr>
          \<and> snd (parseInstruction today data0) = snd (parseInstruction today data))"
proof -
  let ?accs = "data_accounts data"
  from ok failed_iff_thrown [of today data]
  obtain v where v: "validate (splitData (instruction data)) ?accs = Inr v"
    by (cases "validate (splitData (instruction data)) ?accs") auto
  have r: "parseInstruction today data = execute today ?accs v"
    by (simp add: parseInstruction_def v)
  from date have e: "execute_by (v_parsed v) = Some e"
    by (simp add: r execute_def Let_def parsed.extend_def)
  from validate_without_date [OF v e]
  have v0: "validate (splitData (instruction data0)) (data_accounts data0)
              = Inr (v\<lparr>v_parsed := (v_parsed v)\<lparr>execute_by := None\<rparr>\<rparr>)"
    and ne: "e \<noteq> []"
    by (simp_all add: same)
  have r0: "parseInstruction today data0
      = execute today ?accs (v\<lparr>v_parsed := (v_parsed v)\<lparr>execute_by := None\<rparr>\<rparr>)"
    unfolding parseInstruction_def v0 by (simp add: same(1))
  from validate_Inr_props [OF v]
  have dc: "v_debitAcc v \<noteq> v_creditAcc v"
    and am: "amount (v_parsed v) = Some (v_amount v)"
    by simp_all
  from validate_Inr_found [OF v]
  have fd: "findIndex (\<lambda>x. Some (acc_id x) = debit_account (v_parsed v)) ?accs
              = Some (v_debitAcc v)"
    and fc: "findIndex (\<lambda>x. Some (acc_id x) = credit_account (v_parsed v)) ?accs
              = Some (v_creditAcc v)"
    by simp_all
  have fields: "debit_account (fst (execute today ?accs v)) = debit_account (v_parsed v)"
    "credit_account (fst (execute today ?accs v)) = credit_account (v_parsed v)"
    "amount (fst (execute today ?accs v)) = amount (v_parsed v)"
    by (simp_all add: execute_def Let_def parsed.extend_def)
  have moved: "\<exists>d c a.
        findIndex (\<lambda>x. Some (acc_id x) = debit_account (fst (execute today ?accs v))) ?accs = Some d
      \<and> findIndex (\<lambda>x. Some (acc_id x) = credit_account (fst (execute today ?accs v))) ?accs = Some c
      \<and> d \<noteq> c
      \<and> amount (fst (execute today ?accs v)) = Some a
      \<and> snd (execute today ?accs v) =
          ?accs[d := (?accs ! d)\<lparr>acc_balance := num_sub (acc_balance (?accs ! d)) a\<rparr>,
                c := (?accs ! c)\<lparr>acc_balance := num_add (acc_balance (?accs ! c)) a\<rparr>]"
    if s: "status (fst (execute today ?accs v)) = ''successful''"
  proof (intro exI conjI)
    show "snd (execute today ?accs v) =
        ?accs[v_debitAcc v := (?accs ! v_debitAcc v)
                \<lparr>acc_balance := num_sub (acc_balance (?accs ! v_debitAcc v)) (v_amount v)\<rparr>,
              v_creditAcc v := (?accs ! v_creditAcc v)
                \<lparr>acc_balance := num_add (acc_balance (?accs ! v_creditAcc v)) (v_amount v)\<rparr>]"
      using execute_accounts [OF dc, of today ?accs] s by simp
  qed (simp_all add: fields fd fc dc am)
  have st: "status (fst (execute today ?accs v))
      = (if str_less today e then ''pending'' else ''successful'')"
    using e ne by (simp add: execute_def Let_def parsed.extend_def)
  have rest: "(str_less today e \<longrightarrow>
            status (fst (execute today ?accs v)) = ''pending''
          \<and> status_code (fst (execute today ?accs v)) = Some ''AP02''
          \<and> snd (execute today ?accs v) = ?accs)
       \<and> (\<not> str_less today e \<longrightarrow>
            status (fst (execute today ?accs v)) = ''successful''
          \<and> status_code (fst (execute today ?accs v)) = Some ''AP00''
          \<and> status (fst (execute today ?accs (v\<lparr>v_parsed := (v_parsed v)\<lparr>execute_by := None\<rparr>\<rparr>)))
              = ''successful''
          \<and> fst (execute today ?accs (v\<lparr>v_parsed := (v_parsed v)\<lparr>execute_by := None\<rparr>\<rparr>))
              = (fst (execute today ?accs v))\<lparr>execute_by := None\<rparr>
          \<and> snd (execute today ?accs (v\<lparr>v_parsed := (v_parsed v)\<lparr>execute_by := None\<rparr>\<rparr>))
              = snd (execute today ?accs v))"
    using e ne by (simp add: execute_def Let_def parsed.extend_def)
  show ?thesis
    unfolding r r0 using rest moved st by auto
qed

text \<open>
  On 2026-11-03, the README transfer dated 2026-11-04 is pending and leaves the balances
  alone; dated 2026-11-03 it runs at once and leaves 3000 and 3500.
\<close>

theorem date_decides_pending_or_immediate_witness:
  "status (fst (parseInstruction ''2026-11-03''
      (request ''DEBIT 2000 NGN FROM ACCOUNT ACC-001 FOR CREDIT TO ACCOUNT ACC-002 ON 2026-11-04'')))
     = ''pending''
   \<and> snd (parseInstruction ''2026-11-03''
      (request ''DEBIT 2000 NGN FROM ACCOUNT ACC-001 FOR CREDIT TO ACCOUNT ACC-002 ON 2026-11-04''))
     = readme_accounts
   \<and> status (fst (parseInstruction ''2026-11-03''
      (request ''DEBIT 2000 NGN FROM ACCOUNT ACC-001 FOR CREDIT TO ACCOUNT ACC-002 ON 2026-11-03'')))
     = ''successful''
   \<and> map acc_balance (snd (parseInstruction ''2026-11-03''
      (request ''DEBIT 2000 NGN FROM ACCOUNT ACC-001 FOR CREDIT TO ACCOUNT ACC-002 ON 2026-11-03'')))
     = [Fin 3000, Fin 3500]"
proof -
  let ?t = "''2026-11-03''"
  let ?later = "request ''DEBIT 2000 NGN FROM ACCOUNT ACC-001 FOR CREDIT TO ACCOUNT ACC-002 ON 2026-11-04''"
  let ?now = "request ''DEBIT 2000 NGN FROM ACCOUNT ACC-001 FOR CREDIT TO ACCOUNT ACC-002 ON 2026-11-03''"
  let ?plain = "request ''DEBIT 2000 NGN FROM ACCOUNT ACC-001 FOR CREDIT TO ACCOUNT ACC-002''"
  have l1: "status (fst (parseInstruction ?t ?later)) \<noteq> ''failed''"
    and l2: "execute_by (fst (parseInstruction ?t ?later)) = Some ''2026-11-04''"
    by (simp_all add: parse_defs Number_js_defs)
  have n1: "status (fst (parseInstruction ?t ?now)) \<noteq> ''failed''"
    and n2: "execute_by (fst (parseInstruction ?t ?now)) = Some ''2026-11-03''"
    by (simp_all add: parse_defs Number_js_defs)
  have a: "data_accounts ?plain = data_accounts ?later" "data_accounts ?plain = data_accounts ?now"
    by (simp_all add: request_def)
  have s: "splitData (instruction ?plain) = take 11 (splitData (instruction ?later))"
    "splitData (instruction ?plain) = take 11 (splitData (instruction ?now))"
    by (simp_all add: request_def splitData_def)
  have lt: "str_less ?t ''2026-11-04''" and nlt: "\<not> str_less ?t ''2026-11-03''"
    by simp_all
  have plain: "map acc_balance (snd (parseInstruction ?t ?plain)) = [Fin 3000, Fin 3500]"
    by (simp add: parse_defs Number_js_defs)
  from date_decides_pending_or_immediate [OF l1 l2 a(1) s(1)] lt
  have later: "status (fst (parseInstruction ?t ?later)) = ''pending''"
    "snd (parseInstruction ?t ?later) = data_accounts ?later"
    by simp_all
  from date_decides_pending_or_immediate [OF n1 n2 a(2) s(2)] nlt
  have now: "status (fst (parseInstruction ?t ?now)) = ''successful''"
    "snd (parseInstruction ?t ?plain) = snd (parseInstruction ?t ?now)"
    by simp_all
  from later now plain show ?thesis
    by (simp add: request_def)
qed

section \<open>Balances change at most once, and only on success\<close>




section \<open>Failures do not depend on the date\<close>

text \<open>
  Claim C9. The date is the only thing the function reads besides its argument. When the
  response on one date is \<^verbatim>\<open>failed\<close>, the call on any other date gives the same
  \<^verbatim>\<open>status_code\<close>, and indeed the same response and the same accounts.
\<close>

theorem failure_independent_of_date:
  assumes "status (fst (parseInstruction today1 data)) = ''failed''"
  shows "status_code (fst (parseInstruction today2 data))
           = status_code (fst (parseInstruction today1 data))
         \<and> parseInstruction today2 data = parseInstruction today1 data"
proof (cases "validate (splitData (instruction data)) (data_accounts data)")
  case (Inl thrown)
  then show ?thesis by (simp add: parseInstruction_def)
next
  case (Inr v)
  then have "parseInstruction today1 data = execute today1 (data_accounts data) v"
    by (simp add: parseInstruction_def)
  with assms status_execute [of today1 "data_accounts data" v] show ?thesis by simp
qed

text \<open>An overdraft fails with \<^verbatim>\<open>AC01\<close> in 2026 as in 1999.\<close>

theorem failure_independent_of_date_witness:
  "status_code (fst (parseInstruction ''1999-01-01''
      (request ''DEBIT 9000 NGN FROM ACCOUNT ACC-001 FOR CREDIT TO ACCOUNT ACC-002 ON 2000-01-01'')))
     = Some ''AC01''
   \<and> parseInstruction ''1999-01-01''
      (request ''DEBIT 9000 NGN FROM ACCOUNT ACC-001 FOR CREDIT TO ACCOUNT ACC-002 ON 2000-01-01'')
     = parseInstruction ''2026-11-03''
      (request ''DEBIT 9000 NGN FROM ACCOUNT ACC-001 FOR CREDIT TO ACCOUNT ACC-002 ON 2000-01-01'')"
proof -
  let ?poor = "request ''DEBIT 9000 NGN FROM ACCOUNT ACC-001 FOR CREDIT TO ACCOUNT ACC-002 ON 2000-01-01''"
  have f: "status (fst (parseInstruction ''2026-11-03'' ?poor)) = ''failed''"
    by (simp add: parse_defs Number_js_defs)
  have c: "status_code (fst (parseInstruction ''2026-11-03'' ?poor)) = Some ''AC01''"
    by (simp add: parse_defs Number_js_defs)
  from failure_independent_of_date [OF f, of "''1999-01-01''"] c show ?thesis
    by simp
qed

section \<open>An \<^verbatim>\<open>ON\<close> without a date\<close>

text \<open>
  Claim C10. The keywords pass the checks of the structure, of the amount, of the
  currency and of the two account ids, the keyword at index 11 is \<^verbatim>\<open>ON\<close> whatever its
  case, and there is no keyword at index 12. Then the response is \<^verbatim>\<open>failed\<close> with code
  \<^verbatim>\<open>DT01\<close>, and the accounts are as they were.
\<close>

theorem missing_date_is_DT01:
  assumes k: "keywords = normalizeKeywords (splitData (instruction data))"
    and ty: "item keywords 0 = Some ''DEBIT'' \<or> item keywords 0 = Some ''CREDIT''"
    and ord: "\<not> isOutOfOrder keywords (item keywords 0)"
    and amt: "\<not> (isNaN (Number_js (item keywords 1))
                 \<or> num_le (Number_js (item keywords 1)) (Fin 0)
                 \<or> \<not> isPositiveInteger (Number_js (item keywords 1)))"
    and cur: "item keywords 2 = Some k2" "toUpperCase k2 \<in> set supported"
    and ids: "isValidAccountId (item keywords 5) = Inr True"
             "isValidAccountId (item keywords 10) = Inr True"
    and on: "map_option toUpperCase (item keywords 11) = Some ''ON''"
    and nodate: "item keywords 12 = None"
  shows "status (fst (parseInstruction today data)) = ''failed''
         \<and> status_code (fst (parseInstruction today data)) = Some ''DT01''
         \<and> snd (parseInstruction today data) = data_accounts data"
proof -
  from on obtain w where w: "item keywords 11 = Some w" "toUpperCase w = ''ON''"
    by auto
  then have "w \<noteq> []" by (auto simp: toUpperCase_def)
  with w have t: "truthy (item keywords 11)" by simp
  from w have len: "\<not> length keywords < 8"
    by (auto simp: item_def split: if_splits)
  have "\<exists>p. validateInstruction (splitData (instruction data))
          = Inl (throwAppError (PaymentMessages ''DT01'') ''DT01'', p)"
    unfolding validateInstruction_def k [symmetric] Let_def
    using ty ord amt cur ids on nodate t len
    by auto
  then show ?thesis
    by (auto simp: parseInstruction_def validate_def catchBlock_def buildErrorResponse_def
        throwAppError_def Let_def)
qed

text \<open>
  The README transfer with a bare \<^verbatim>\<open>ON\<close> at its end; and the same with the amount
  written \<^verbatim>\<open>2000.0000000000000001\<close>, which \<^verbatim>\<open>Number\<close> reads as 2000.
\<close>

theorem missing_date_is_DT01_witness:
  "status (fst (parseInstruction ''2026-11-03''
      (request ''DEBIT 2000 NGN FROM ACCOUNT ACC-001 FOR CREDIT TO ACCOUNT ACC-002 ON''))) = ''failed''
   \<and> status_code (fst (parseInstruction ''2026-11-03''
      (request ''DEBIT 2000 NGN FROM ACCOUNT ACC-001 FOR CREDIT TO ACCOUNT ACC-002 ON''))) = Some ''DT01''
   \<and> snd (parseInstruction ''2026-11-03''
      (request ''DEBIT 2000 NGN FROM ACCOUNT ACC-001 FOR CREDIT TO ACCOUNT ACC-002 ON'')) = readme_accounts
   \<and> status_code (fst (parseInstruction ''2026-11-03''
      (request ''DEBIT 2000.0000000000000001 NGN FROM ACCOUNT ACC-001 FOR CREDIT TO ACCOUNT ACC-002 ON'')))
     = Some ''DT01''"
proof -
  let ?data = "request ''DEBIT 2000 NGN FROM ACCOUNT ACC-001 FOR CREDIT TO ACCOUNT ACC-002 ON''"
  let ?ks = "[''DEBIT'', ''2000'', ''NGN'', ''FROM'', ''ACCOUNT'', ''ACC-001'',
              ''FOR'', ''CREDIT'', ''TO'', ''ACCOUNT'', ''ACC-002'', ''ON'']"
  let ?long = "request ''DEBIT 2000.0000000000000001 NGN FROM ACCOUNT ACC-001 FOR CREDIT TO ACCOUNT ACC-002 ON''"
  let ?kl = "[''DEBIT'', ''2000.0000000000000001'', ''NGN'', ''FROM'', ''ACCOUNT'', ''ACC-001'',
              ''FOR'', ''CREDIT'', ''TO'', ''ACCOUNT'', ''ACC-002'', ''ON'']"
  have k: "?ks = normalizeKeywords (splitData (instruction ?data))"
    by (simp add: request_def splitData_def normalizeKeywords_def toUpperCase_def toUpperChar_def)
  have kl: "?kl = normalizeKeywords (splitData (instruction ?long))"
    by (simp add: request_def splitData_def normalizeKeywords_def toUpperCase_def toUpperChar_def)
  have n: "Number_js (item ?ks 1) = Fin 2000"
    by (simp add: item_def Number_js_defs)
  have nl: "Number_js (item ?kl 1) = Fin 2000"
    using Number_js_long_fraction by (simp add: item_def)
  have plain: "status (fst (parseInstruction ''2026-11-03'' ?data)) = ''failed''
         \<and> status_code (fst (parseInstruction ''2026-11-03'' ?data)) = Some ''DT01''
         \<and> snd (parseInstruction ''2026-11-03'' ?data) = data_accounts ?data"
  proof (rule missing_date_is_DT01 [OF k, where ?k2.0 = "''NGN''"])
    show "\<not> isOutOfOrder ?ks (item ?ks 0)"
      by (simp add: isOutOfOrder_def expected_DEBIT_def item_def toUpperCase_def toUpperChar_def)
    show "\<not> (isNaN (Number_js (item ?ks 1)) \<or> num_le (Number_js (item ?ks 1)) (Fin 0)
              \<or> \<not> isPositiveInteger (Number_js (item ?ks 1)))"
      unfolding n by (simp add: isNaN_def num_le_def isPositiveInteger_def)
  qed (simp_all add: item_def toUpperCase_def toUpperChar_def supported_def isAllowedChar_def)
  have long: "status (fst (parseInstruction ''2026-11-03'' ?long)) = ''failed''
         \<and> status_code (fst (parseInstruction ''2026-11-03'' ?long)) = Some ''DT01''
         \<and> snd (parseInstruction ''2026-11-03'' ?long) = data_accounts ?long"
  proof (rule missing_date_is_DT01 [OF kl, where ?k2.0 = "''NGN''"])
    show "\<not> isOutOfOrder ?kl (item ?kl 0)"
      by (simp add: isOutOfOrder_def expected_DEBIT_def item_def toUpperCase_def toUpperChar_def)
    show "\<not> (isNaN (Number_js (item ?kl 1)) \<or> num_le (Number_js (item ?kl 1)) (Fin 0)
              \<or> \<not> isPositiveInteger (Number_js (item ?kl 1)))"
      unfolding nl by (simp add: isNaN_def num_le_def isPositiveInteger_def)
  qed (simp_all add: item_def toUpperCase_def toUpperChar_def supported_def isAllowedChar_def)
  from plain long show ?thesis
    by (simp add: request_def)
qed

section \<open>The shape of a response\<close>

text \<open>Every response has one of the three statuses.\<close>

lemma status_cases:
  "status (fst (parseInstruction today data)) = ''successful''
   \<or> status (fst (parseInstruction today data)) = ''pending''
   \<or> status (fst (parseInstruction today data)) = ''failed''"
proof (cases "validate (splitData (instruction data)) (data_accounts data)")
  case (Inl thrown)
  then show ?thesis
    by (cases thrown) (simp add: parseInstruction_def status_catchBlock)
next
  case (Inr v)
  then show ?thesis
    using status_execute [of today "data_accounts data" v]
    by (auto simp: parseInstruction_def)
qed

text \<open>
  What the first part of the \<^verbatim>\<open>try\<close> block throws is an application error with one of
  seven codes, or the \<^verbatim>\<open>TypeError\<close> of \<^verbatim>\<open>isValidAccountId(undefined)\<close>; the latter happens
  on instructions of exactly ten tokens and on no others.
\<close>

lemma isOutOfOrder_length:
  assumes "ty = Some ''DEBIT'' \<or> ty = Some ''CREDIT''" and "\<not> isOutOfOrder ks ty"
  shows "10 \<le> length ks"
proof (rule ccontr)
  assume "\<not> 10 \<le> length ks"
  then have "item ks (Suc (Suc (Suc (Suc (Suc (Suc (Suc (Suc (Suc 0))))))))) = None"
    by (simp add: item_def)
  with assms show False
    by (auto simp: isOutOfOrder_def expected_DEBIT_def expected_CREDIT_def split: if_splits)
qed

lemma validateInstruction_thrown:
  assumes "validateInstruction raw = Inl (err, p)"
  shows "errorCode err \<in> Some ` {''SY01'', ''SY02'', ''SY03'', ''AM01'', ''CU02'', ''AC04'', ''DT01''}
         \<or> errorCode err = None \<and> length raw = 10"
proof -
  have len: "10 \<le> length raw"
    if "item (normalizeKeywords raw) 0 = Some ''DEBIT'' \<or> item (normalizeKeywords raw) 0 = Some ''CREDIT''"
      and "\<not> isOutOfOrder (normalizeKeywords raw) (item (normalizeKeywords raw) 0)"
    using isOutOfOrder_length [OF that] by (simp add: length_normalizeKeywords)
  show ?thesis
    using assms len unfolding validateInstruction_def Let_def
    by (auto simp: throwAppError_def item_def length_normalizeKeywords
        split: if_splits option.splits sum.splits
        elim!: isValidAccountId.elims)
qed

lemma validateAccounts_thrown:
  assumes "validateAccounts accs p amt = Inl (err, p')"
  shows "errorCode err \<in> Some ` {''AC01'', ''AC02'', ''AC03'', ''CU01''}"
  using assms unfolding validateAccounts_def Let_def
  by (auto simp: throwAppError_def split: if_splits option.splits prod.splits)

text \<open>
  So a response carries one of the thirteen documented codes, or no code at all, and
  the latter on instructions of ten tokens only.
\<close>

lemma status_code_cases:
  "status_code (fst (parseInstruction today data))
     \<in> Some ` {''SY01'', ''SY02'', ''SY03'', ''AM01'', ''CU01'', ''CU02'', ''AC01'', ''AC02'',
                ''AC03'', ''AC04'', ''DT01'', ''AP00'', ''AP02''}
   \<or> status_code (fst (parseInstruction today data)) = None
     \<and> length (splitData (instruction data)) = 10"
proof (cases "validateInstruction (splitData (instruction data))")
  case (Inl thrown)
  obtain err p where t: "thrown = (err, p)" by (cases thrown)
  from validateInstruction_thrown [OF Inl [unfolded t]] show ?thesis
    by (auto simp: parseInstruction_def validate_def Inl t catchBlock_def buildErrorResponse_def
        Let_def)
next
  case (Inr checked)
  obtain p amt where c: "checked = (p, amt)" by (cases checked)
  show ?thesis
  proof (cases "validateAccounts (data_accounts data) p amt")
    case (Inl thrown)
    obtain err p' where t: "thrown = (err, p')" by (cases thrown)
    from validateAccounts_thrown [OF Inl [unfolded t]] show ?thesis
      by (auto simp: parseInstruction_def validate_def Inr c Inl t catchBlock_def
          buildErrorResponse_def Let_def)
  next
    case v: (Inr v)
    show ?thesis
      by (simp add: parseInstruction_def validate_def Inr c v execute_def Let_def
          parsed.extend_def)
  qed
qed

section \<open>Where the program departs from its documentation\<close>

text \<open>
  Claim C4. The claim is that \<^verbatim>\<open>status_code\<close> is always one of the thirteen documented
  codes and never absent. The minimum length that the program asks for is 8 tokens, but
  it reads the token at index 10: an instruction of ten tokens that matches the skeleton
  reaches \<^verbatim>\<open>isValidAccountId(undefined)\<close>, the \<^verbatim>\<open>TypeError\<close> is caught, and the response
  gets its \<^verbatim>\<open>errorCode\<close>, which is \<^verbatim>\<open>undefined\<close>. Here on the README transfer with its
  last token missing, whatever the accounts and the date.
\<close>

theorem ten_tokens_give_no_status_code:
  "status (fst (parseInstruction today
      \<lparr>data_accounts = accs,
       instruction = ''DEBIT 2000 NGN FROM ACCOUNT ACC-001 FOR CREDIT TO ACCOUNT''\<rparr>)) = ''failed''
   \<and> status_code (fst (parseInstruction today
      \<lparr>data_accounts = accs,
       instruction = ''DEBIT 2000 NGN FROM ACCOUNT ACC-001 FOR CREDIT TO ACCOUNT''\<rparr>)) = None"
  by (simp add: parse_defs Number_js_defs)

text \<open>
  Claim C5. No exception leaves the function, but the record it returns is not always
  the well-formed one of the claim: on the CREDIT form of the same ten-token instruction
  the response has no \<^verbatim>\<open>status_code\<close>, and its \<^verbatim>\<open>status_reason\<close> is the text of the
  engine's \<^verbatim>\<open>TypeError\<close> and not one of the documented reasons.
\<close>

theorem ten_tokens_give_type_error_response:
  "fst (parseInstruction today
      \<lparr>data_accounts = accs,
       instruction = ''CREDIT 500 USD TO ACCOUNT WALLET01 FOR DEBIT FROM ACCOUNT''\<rparr>)
   = \<lparr>type = Some ''CREDIT'', amount = Some (Fin 500), currency = Some ''USD'',
      debit_account = None, credit_account = Some ''WALLET01'', execute_by = None,
      accounts = [], status = ''failed'',
      status_reason = ''Cannot read properties of undefined (reading 'length')'',
      status_code = None\<rparr>"
  by (simp add: parse_defs Number_js_defs)

text \<open>
  Claim C6. The README gives \<^verbatim>\<open>SY02\<close> as the response to the instruction with amount and
  currency swapped. The keyword check leaves the positions 1 and 2 alone, so the
  instruction passes it, and the first check to fail is the one of the amount:
  \<^verbatim>\<open>Number('NGN')\<close> is \<open>NaN\<close> and the code is \<^verbatim>\<open>AM01\<close>, whatever the accounts and the date.
\<close>

theorem swapped_amount_and_currency_is_AM01:
  "status (fst (parseInstruction today
      \<lparr>data_accounts = accs,
       instruction = ''DEBIT NGN 2000 FROM ACCOUNT ACC-01 FOR CREDIT TO ACCOUNT ACC-02''\<rparr>)) = ''failed''
   \<and> status_code (fst (parseInstruction today
      \<lparr>data_accounts = accs,
       instruction = ''DEBIT NGN 2000 FROM ACCOUNT ACC-01 FOR CREDIT TO ACCOUNT ACC-02''\<rparr>)) = Some ''AM01''"
  by (simp add: parse_defs Number_js_defs)

text \<open>
  Claim C7. The claim is that a failed response echoes every value extracted before the
  failing check. The currency is stored in \<^verbatim>\<open>parsed\<close> only after the check of the
  supported currencies, so a \<^verbatim>\<open>CU02\<close> response has the currency \<^verbatim>\<open>null\<close> and not the
  token; and \<^verbatim>\<open>parsed.amount || null\<close> turns the amount \<open>0\<close> into \<^verbatim>\<open>null\<close> in an
  \<^verbatim>\<open>AM01\<close> response.
\<close>

theorem failed_response_loses_extracted_values:
  "status_code (fst (parseInstruction today
      \<lparr>data_accounts = accs,
       instruction = ''DEBIT 2000 XYZ FROM ACCOUNT ACC-001 FOR CREDIT TO ACCOUNT ACC-002''\<rparr>)) = Some ''CU02''
   \<and> currency (fst (parseInstruction today
      \<lparr>data_accounts = accs,
       instruction = ''DEBIT 2000 XYZ FROM ACCOUNT ACC-001 FOR CREDIT TO ACCOUNT ACC-002''\<rparr>)) = None
   \<and> status_code (fst (parseInstruction today
      \<lparr>data_accounts = accs,
       instruction = ''DEBIT 0 NGN FROM ACCOUNT ACC-001 FOR CREDIT TO ACCOUNT ACC-002''\<rparr>)) = Some ''AM01''
   \<and> amount (fst (parseInstruction today
      \<lparr>data_accounts = accs,
       instruction = ''DEBIT 0 NGN FROM ACCOUNT ACC-001 FOR CREDIT TO ACCOUNT ACC-002''\<rparr>)) = None"
  by (simp add: parse_defs Number_js_defs)

section \<open>The tokenizer\<close>

lemma split_not_Nil: "split sep s \<noteq> []"
  by (induction s) (auto split: list.splits)

lemma concat_split: "concat (split sep s) = filter (\<lambda>c. c \<noteq> sep) s"
  by (induction s) (auto split: list.splits)

text \<open>A run of characters without the separator is one piece, up to the next separator.\<close>

lemma split_word: "sep \<notin> set w \<Longrightarrow> split sep (w @ sep # s) = w # split sep s"
  by (induction w) auto

lemma split_last_word: "sep \<notin> set w \<Longrightarrow> split sep w = [w]"
  by (induction w) auto

lemma separator_not_in_split: "w \<in> set (split sep s) \<Longrightarrow> sep \<notin> set w"
proof (induction s arbitrary: w)
  case Nil
  then show ?case by simp
next
  case (Cons c cs)
  show ?case
  proof (cases "c = sep")
    case True
    with Cons show ?thesis by auto
  next
    case False
    obtain v vs where s: "split sep cs = v # vs"
      using split_not_Nil [of sep cs] by (cases "split sep cs") auto
    from Cons.prems False s have "w = c # v \<or> w \<in> set vs" by simp
    then show ?thesis
    proof
      assume "w = c # v"
      moreover have "sep \<notin> set v" using Cons.IH [of v] s by simp
      ultimately show ?thesis using False by auto
    next
      assume "w \<in> set vs"
      then show ?thesis using Cons.IH [of w] s by simp
    qed
  qed
qed

lemma concat_filter_nonempty: "concat (filter (\<lambda>w. w \<noteq> []) ws) = concat ws"
  by (induction ws) auto

lemma splitData_Nil: "splitData [] = []"
  by (simp add: splitData_def)

lemma splitData_space: "splitData (CHR '' '' # s) = splitData s"
  by (simp add: splitData_def)

lemma splitData_word:
  assumes "w \<noteq> []" and "CHR '' '' \<notin> set w"
  shows "splitData (w @ CHR '' '' # s) = w # splitData s"
  using assms by (simp add: splitData_def split_word)

lemma splitData_last_word:
  assumes "w \<noteq> []" and "CHR '' '' \<notin> set w"
  shows "splitData w = [w]"
  using assms by (simp add: splitData_def split_last_word)

lemma splitData_tokens:
  assumes "w \<in> set (splitData s)"
  shows "w \<noteq> [] \<and> CHR '' '' \<notin> set w"
proof -
  from assms have "w \<noteq> []" and "w \<in> set (split (CHR '' '') s)"
    by (simp_all add: splitData_def)
  then show ?thesis by (simp add: separator_not_in_split)
qed

text \<open>Words without spaces, joined by single spaces, are split into themselves.\<close>

lemma splitData_joinWords:
  "(\<And>w. w \<in> set ws \<Longrightarrow> w \<noteq> [] \<and> CHR '' '' \<notin> set w) \<Longrightarrow> splitData (joinWords ws) = ws"
proof (induction ws rule: joinWords.induct)
  case 1
  show ?case by (simp add: splitData_Nil)
next
  case (2 w)
  then show ?case by (simp add: splitData_last_word)
next
  case (3 w v ws)
  have "splitData (joinWords (v # ws)) = v # ws"
    by (rule "3.IH") (simp add: "3.prems")
  moreover have "w \<noteq> []" "CHR '' '' \<notin> set w"
    using "3.prems" [of w] by simp_all
  ultimately show ?case by (simp add: splitData_word)
qed

lemma splitData_canonical: "splitData (joinWords (splitData s)) = splitData s"
  by (rule splitData_joinWords) (rule splitData_tokens)

lemma parseInstruction_tokens:
  assumes a: "splitData (instruction data1) = splitData (instruction data2)"
    and b: "data_accounts data1 = data_accounts data2"
  shows "parseInstruction today data1 = parseInstruction today data2"
  unfolding parseInstruction_def a b by (rule refl)

text \<open>
  Claim C8, as the program has it. The tokenizer cuts at the space character (U+0020)
  and at nothing else. The first four facts say where it cuts, and fix it on every
  string: nothing gives no token, a space at the front is dropped, and a run \<open>w\<close> of
  characters other than the space, not empty, is one token, whether the string ends
  there or a space follows; a tab or a line break inside \<open>w\<close> stays inside the token.
  Hence no token is empty, no token contains a space, and the tokens in their order are
  the instruction with its spaces taken out. The response and the accounts depend on the
  instruction through its tokens only: a request gives the same result as the request
  with its words written one space apart, and two requests with the same accounts
  whose instructions have the same space-separated words give the same result.
\<close>

theorem tokens_are_space_separated_words:
  "splitData [] = []
   \<and> splitData (CHR '' '' # s) = splitData s
   \<and> (w \<noteq> [] \<and> CHR '' '' \<notin> set w \<longrightarrow>
        splitData w = [w] \<and> splitData (w @ CHR '' '' # s) = w # splitData s)
   \<and> (\<forall>w \<in> set (splitData s). w \<noteq> [] \<and> CHR '' '' \<notin> set w)
   \<and> concat (splitData s) = filter (\<lambda>c. c \<noteq> CHR '' '') s
   \<and> parseInstruction today (data1\<lparr>instruction := joinWords (splitData (instruction data1))\<rparr>)
       = parseInstruction today data1
   \<and> (splitData (instruction data1) = splitData (instruction data2)
        \<and> data_accounts data1 = data_accounts data2
      \<longrightarrow> parseInstruction today data1 = parseInstruction today data2)"
proof (intro conjI ballI impI)
  show "splitData [] = []" by (rule splitData_Nil)
  show "splitData (CHR '' '' # s) = splitData s" by (rule splitData_space)
next
  assume "w \<noteq> [] \<and> CHR '' '' \<notin> set w"
  then show "splitData w = [w]" and "splitData (w @ CHR '' '' # s) = w # splitData s"
    by (simp_all add: splitData_last_word splitData_word)
next
  fix u assume "u \<in> set (splitData s)"
  then show "u \<noteq> []" and "CHR '' '' \<notin> set u"
    using splitData_tokens [of u s] by simp_all
next
  show "concat (splitData s) = filter (\<lambda>c. c \<noteq> CHR '' '') s"
    by (simp add: splitData_def concat_filter_nonempty concat_split)
next
  show "parseInstruction today (data1\<lparr>instruction := joinWords (splitData (instruction data1))\<rparr>)
       = parseInstruction today data1"
    by (rule parseInstruction_tokens) (simp_all add: splitData_canonical)
next
  assume "splitData (instruction data1) = splitData (instruction data2)
    \<and> data_accounts data1 = data_accounts data2"
  then show "parseInstruction today data1 = parseInstruction today data2"
    by (intro parseInstruction_tokens) simp_all
qed

text \<open>
  Spaces before, between and after the words of the README transfer change nothing,
  and a tab does not end a word.
\<close>

theorem tokens_are_space_separated_words_witness:
  "splitData ''  DEBIT 2000   NGN FROM ACCOUNT ACC-001 FOR CREDIT TO  ACCOUNT ACC-002 ''
     = [''DEBIT'', ''2000'', ''NGN'', ''FROM'', ''ACCOUNT'', ''ACC-001'',
        ''FOR'', ''CREDIT'', ''TO'', ''ACCOUNT'', ''ACC-002'']
   \<and> splitData (''DEBIT'' @ [CHR 0x09] @ ''2000'') = [''DEBIT'' @ [CHR 0x09] @ ''2000'']
   \<and> parseInstruction ''2026-11-03''
       (request ''  DEBIT 2000   NGN FROM ACCOUNT ACC-001 FOR CREDIT TO  ACCOUNT ACC-002 '')
     = parseInstruction ''2026-11-03''
       (request ''DEBIT 2000 NGN FROM ACCOUNT ACC-001 FOR CREDIT TO ACCOUNT ACC-002'')"
proof -
  let ?wide = "''  DEBIT 2000   NGN FROM ACCOUNT ACC-001 FOR CREDIT TO  ACCOUNT ACC-002 ''"
  let ?plain = "''DEBIT 2000 NGN FROM ACCOUNT ACC-001 FOR CREDIT TO ACCOUNT ACC-002''"
  let ?tab = "''DEBIT'' @ [CHR 0x09] @ ''2000''"
  have w: "splitData ?wide
     = [''DEBIT'', ''2000'', ''NGN'', ''FROM'', ''ACCOUNT'', ''ACC-001'',
        ''FOR'', ''CREDIT'', ''TO'', ''ACCOUNT'', ''ACC-002'']"
    by (simp add: splitData_def)
  have p: "splitData ?plain = splitData ?wide"
    by (simp add: splitData_def)
  have t: "?tab \<noteq> [] \<and> CHR '' '' \<notin> set ?tab"
    by simp
  have q: "splitData (instruction (request ?wide)) = splitData (instruction (request ?plain))
      \<and> data_accounts (request ?wide) = data_accounts (request ?plain)"
    using p by (simp add: request_def)
  note all = tokens_are_space_separated_words
    [where s = ?wide and w = ?tab and ?data1.0 = "request ?wide" and ?data2.0 = "request ?plain"
       and today = "''2026-11-03''"]
  from all have run: "?tab \<noteq> [] \<and> CHR '' '' \<notin> set ?tab \<longrightarrow>
      splitData ?tab = [?tab] \<and> splitData (?tab @ CHR '' '' # ?wide) = ?tab # splitData ?wide"
    by (rule conjunct1 [OF conjunct2 [OF conjunct2]])
  from mp [OF run t] have one: "splitData ?tab = [?tab]"
    by (rule conjunct1)
  from all have cong: "splitData (instruction (request ?wide)) = splitData (instruction (request ?plain))
      \<and> data_accounts (request ?wide) = data_accounts (request ?plain)
      \<longrightarrow> parseInstruction ''2026-11-03'' (request ?wide)
          = parseInstruction ''2026-11-03'' (request ?plain)"
    by (rule conjunct2 [OF conjunct2 [OF conjunct2 [OF conjunct2 [OF conjunct2 [OF conjunct2]]]]])
  from mp [OF cong q] have same: "parseInstruction ''2026-11-03'' (request ?wide)
      = parseInstruction ''2026-11-03'' (request ?plain)" .
  from w one same show ?thesis by (intro conjI)
qed

text \<open>
  Claim C8, as the specification has it, fails: a tab is white space, so the two
  instructions below have the same whitespace-separated words, but the program keeps
  \<^verbatim>\<open>DEBIT<tab>2000\<close> as one token and rejects the first one with \<^verbatim>\<open>SY03\<close>, while it
  executes the second.
\<close>

theorem tab_separated_words_counterexample:
  "whitespace_words (''DEBIT'' @ [CHR 0x09] @ ''2000 NGN FROM ACCOUNT ACC-001 FOR CREDIT TO ACCOUNT ACC-002'')
     = whitespace_words ''DEBIT 2000 NGN FROM ACCOUNT ACC-001 FOR CREDIT TO ACCOUNT ACC-002''
   \<and> status_code (fst (parseInstruction ''2026-11-03''
        (request (''DEBIT'' @ [CHR 0x09] @ ''2000 NGN FROM ACCOUNT ACC-001 FOR CREDIT TO ACCOUNT ACC-002''))))
     = Some ''SY03''
   \<and> status_code (fst (parseInstruction ''2026-11-03''
        (request ''DEBIT 2000 NGN FROM ACCOUNT ACC-001 FOR CREDIT TO ACCOUNT ACC-002'')))
     = Some ''AP00''"
proof (intro conjI)
  show "whitespace_words (''DEBIT'' @ [CHR 0x09] @ ''2000 NGN FROM ACCOUNT ACC-001 FOR CREDIT TO ACCOUNT ACC-002'')
     = whitespace_words ''DEBIT 2000 NGN FROM ACCOUNT ACC-001 FOR CREDIT TO ACCOUNT ACC-002''"
    by (simp add: whitespace_words_def isStrWhiteSpaceChar_def)
  show "status_code (fst (parseInstruction ''2026-11-03''
        (request (''DEBIT'' @ [CHR 0x09] @ ''2000 NGN FROM ACCOUNT ACC-001 FOR CREDIT TO ACCOUNT ACC-002''))))
     = Some ''SY03''"
    by (simp add: parse_defs Number_js_defs)
  show "status_code (fst (parseInstruction ''2026-11-03''
        (request ''DEBIT 2000 NGN FROM ACCOUNT ACC-001 FOR CREDIT TO ACCOUNT ACC-002'')))
     = Some ''AP00''"
    by (simp add: parse_defs Number_js_defs)
qed

end
